theory Spec2Isabelle
  imports Complex_Main
begin

section \<open>Strings and numbers of the source language\<close>

text \<open>
  Strings are lists of characters. The white space of \<^verbatim>\<open>\s\<close>, \<^verbatim>\<open>String.prototype.trim\<close>,
  \<^verbatim>\<open>parseInt\<close> and \<^verbatim>\<open>parseFloat\<close> is modelled by its ASCII members (tab, line feed,
  vertical tab, form feed, carriage return, space); the white space beyond ASCII is not
  represented.
\<close>

definition isSpace :: "char \<Rightarrow> bool" where
  "isSpace c = (c = CHR '' '' \<or> c = CHR 0x09 \<or> c = CHR 0x0A \<or> c = CHR 0x0B \<or>
                c = CHR 0x0C \<or> c = CHR 0x0D)"

definition trim :: "string \<Rightarrow> string" where
  "trim s = rev (dropWhile isSpace (rev (dropWhile isSpace s)))"

text \<open>\<^verbatim>\<open>s.split(',')\<close>: the pieces between the separators; the empty string has one piece.\<close>

fun split_char :: "char \<Rightarrow> string \<Rightarrow> string list" where
  "split_char sep [] = [[]]"
| "split_char sep (c # cs) =
     (if c = sep then [] # split_char sep cs
      else (case split_char sep cs of
              [] \<Rightarrow> [[c]]
            | w # ws \<Rightarrow> (c # w) # ws))"

text \<open>
  \<^verbatim>\<open>s.split(/\s+/)\<close>: the pieces between the maximal runs of white space; a string that
  starts or ends with white space has an empty first or last piece.
\<close>

function split_ws :: "string \<Rightarrow> string list" where
  "split_ws [] = [[]]"
| "split_ws (c # cs) =
     (if isSpace c then [] # split_ws (dropWhile isSpace cs)
      else (case split_ws cs of
              [] \<Rightarrow> [[c]]
            | w # ws \<Rightarrow> (c # w) # ws))"
  by pat_completeness auto
termination
  by (relation "measure length") (auto simp: less_Suc_eq_le length_dropWhile_le)

text \<open>\<^verbatim>\<open>parts.join(' ')\<close>.\<close>

fun join_space :: "string list \<Rightarrow> string" where
  "join_space [] = []"
| "join_space [p] = p"
| "join_space (p # q # ps) = p @ '' '' @ join_space (q # ps)"

definition isDigit :: "char \<Rightarrow> bool" where
  "isDigit c = (let n = (of_char c :: nat) in 48 \<le> n \<and> n \<le> 57)"

text \<open>The value of a character as a digit of a radix up to 16, if it has one.\<close>

definition digitValue :: "char \<Rightarrow> nat option" where
  "digitValue c =
     (let n = (of_char c :: nat) in
      if 48 \<le> n \<and> n \<le> 57 then Some (n - 48)
      else if 97 \<le> n \<and> n \<le> 102 then Some (n - 87)
      else if 65 \<le> n \<and> n \<le> 70 then Some (n - 55)
      else None)"

definition isRadixDigit :: "nat \<Rightarrow> char \<Rightarrow> bool" where
  "isRadixDigit R c = (case digitValue c of None \<Rightarrow> False | Some d \<Rightarrow> d < R)"

definition digitsValue :: "nat \<Rightarrow> string \<Rightarrow> nat" where
  "digitsValue R ds = foldl (\<lambda>acc c. acc * R + (case digitValue c of None \<Rightarrow> 0 | Some d \<Rightarrow> d)) 0 ds"

text \<open>
  \<^verbatim>\<open>parseInt(s)\<close> with no radix: leading white space is skipped, a sign is read, the prefix
  \<^verbatim>\<open>0x\<close> or \<^verbatim>\<open>0X\<close> selects radix 16, and the longest prefix of digits of the radix is
  the value; with no digit the result is \<^verbatim>\<open>NaN\<close>, here \<open>None\<close>. The result is an exact
  integer: the rounding of values beyond \<open>2^53\<close> to a double is not modelled.
\<close>

definition parseInt :: "string \<Rightarrow> int option" where
  "parseInt str =
     (let s = dropWhile isSpace str;
          neg = (case s of [] \<Rightarrow> False | c # _ \<Rightarrow> c = CHR ''-'');
          s1 = (case s of [] \<Rightarrow> [] | c # r \<Rightarrow> if c = CHR ''-'' \<or> c = CHR ''+'' then r else s);
          hex = (take 2 s1 = ''0x'' \<or> take 2 s1 = ''0X'');
          R = (if hex then 16 else 10);
          s2 = (if hex then drop 2 s1 else s1);
          Z = takeWhile (isRadixDigit R) s2
      in if Z = [] then None
         else Some (if neg then - int (digitsValue R Z) else int (digitsValue R Z)))"

text \<open>
  A JavaScript number: \<^verbatim>\<open>NaN\<close>, the two infinities, or a finite value. Finite values
  are exact rationals: the rounding of a decimal literal to the nearest double is not
  modelled (the code compares these numbers and never computes with them).
\<close>

datatype jsnum = NaN | NegInf | Fin rat | PosInf

fun num_le :: "jsnum \<Rightarrow> jsnum \<Rightarrow> bool" where
  "num_le NaN _ = False"
| "num_le _ NaN = False"
| "num_le NegInf _ = True"
| "num_le _ PosInf = True"
| "num_le (Fin a) (Fin b) = (a \<le> b)"
| "num_le (Fin a) NegInf = False"
| "num_le PosInf _ = False"

text \<open>\<^verbatim>\<open>Math.max\<close> and \<^verbatim>\<open>Math.min\<close> of two numbers: \<^verbatim>\<open>NaN\<close> if either is.\<close>

definition Math_max :: "jsnum \<Rightarrow> jsnum \<Rightarrow> jsnum" where
  "Math_max a b = (if a = NaN \<or> b = NaN then NaN else if num_le a b then b else a)"

definition Math_min :: "jsnum \<Rightarrow> jsnum \<Rightarrow> jsnum" where
  "Math_min a b = (if a = NaN \<or> b = NaN then NaN else if num_le a b then a else b)"

text \<open>
  The exponent part of a decimal literal, \<^verbatim>\<open>e\<close> or \<^verbatim>\<open>E\<close>, an optional sign and at least
  one digit; anything else is no exponent part and counts as exponent 0.
\<close>

definition exponentPart :: "string \<Rightarrow> int" where
  "exponentPart s =
     (case s of
        [] \<Rightarrow> 0
      | c # r \<Rightarrow>
          if c = CHR ''e'' \<or> c = CHR ''E'' then
            (let neg = (case r of [] \<Rightarrow> False | d # _ \<Rightarrow> d = CHR ''-'');
                 r1 = (case r of [] \<Rightarrow> [] | d # t \<Rightarrow> if d = CHR ''-'' \<or> d = CHR ''+'' then t else r);
                 ds = takeWhile isDigit r1
             in if ds = [] then 0
                else if neg then - int (digitsValue 10 ds) else int (digitsValue 10 ds))
          else 0)"

definition pow10 :: "int \<Rightarrow> rat" where
  "pow10 e = (if 0 \<le> e then 10 ^ nat e else 1 / 10 ^ nat (- e))"

text \<open>
  \<^verbatim>\<open>parseFloat(s)\<close>: leading white space is skipped and the longest prefix that is a
  decimal literal (a sign, then \<^verbatim>\<open>Infinity\<close> or digits with an optional fraction and an
  optional exponent) is the value; with no such prefix the result is \<^verbatim>\<open>NaN\<close>.
\<close>

definition parseFloat :: "string \<Rightarrow> jsnum" where
  "parseFloat str =
     (let s = dropWhile isSpace str;
          neg = (case s of [] \<Rightarrow> False | c # _ \<Rightarrow> c = CHR ''-'');
          s1 = (case s of [] \<Rightarrow> [] | c # r \<Rightarrow> if c = CHR ''-'' \<or> c = CHR ''+'' then r else s)
      in if take 8 s1 = ''Infinity'' then (if neg then NegInf else PosInf)
         else
           (let ip = takeWhile isDigit s1;
                r1 = dropWhile isDigit s1;
                dot = (case r1 of [] \<Rightarrow> False | c # _ \<Rightarrow> c = CHR ''.'');
                fp = (if dot then takeWhile isDigit (tl r1) else []);
                r2 = (if dot then dropWhile isDigit (tl r1) else r1)
            in if ip = [] \<and> fp = [] then NaN
               else
                 (let m = rat_of_nat (digitsValue 10 (ip @ fp)) / 10 ^ length fp * pow10 (exponentPart r2)
                  in Fin (if neg then - m else m))))"

definition isNaN :: "jsnum \<Rightarrow> bool" where
  "isNaN v = (v = NaN)"


section \<open>Utils.retry\<close>

text \<open>
  \<^verbatim>\<open>Utils.retry(fn, maxRetries, delay)\<close> of \<^verbatim>\<open>src/bot.js\<close> calls the asynchronous
  operation \<open>fn\<close> up to \<open>maxRetries\<close> times. The operation is effectful, so the model
  takes the outcome of its \<open>i\<close>-th call (counted from 0) as \<open>fn i\<close>: \<open>Inl e\<close> when the
  call throws \<open>e\<close>, \<open>Inr v\<close> when it resolves to \<open>v\<close>. The loop is modelled with its
  counter \<open>i\<close> and its variable \<open>lastError\<close> (\<open>None\<close> is JavaScript's \<open>undefined\<close>).
  What the wrapper does is recorded as a list of steps: every call of \<open>fn\<close> and every
  \<open>setTimeout\<close> wait, with its length in milliseconds.
\<close>

datatype retry_step = Attempt nat | Wait nat

function retry_from ::
  "(nat \<Rightarrow> 'e + 'a) \<Rightarrow> nat \<Rightarrow> nat \<Rightarrow> nat \<Rightarrow> 'e option \<Rightarrow> ('e option + 'a) \<times> retry_step list"
where
  "retry_from fn maxRetries delay i lastError =
     (if i < maxRetries then
        (case fn i of
           Inr v \<Rightarrow> (Inr v, [Attempt i])
         | Inl error \<Rightarrow>
             (let waits = (if i < maxRetries - 1 then [Wait (delay * 2 ^ i)] else []);
                  (r, steps) = retry_from fn maxRetries delay (Suc i) (Some error)
              in (r, Attempt i # waits @ steps)))
      else (Inl lastError, []))"
  by pat_completeness auto
termination
  by (relation "measure (\<lambda>(fn, maxRetries, delay, i, lastError). maxRetries - i)") auto

declare retry_from.simps [simp del]

definition retry :: "(nat \<Rightarrow> 'e + 'a) \<Rightarrow> nat \<Rightarrow> nat \<Rightarrow> ('e option + 'a) \<times> retry_step list" where
  "retry fn maxRetries delay = retry_from fn maxRetries delay 0 None"

text \<open>\<^verbatim>\<open>CONFIG.BOT.MAX_RETRIES\<close> and \<^verbatim>\<open>CONFIG.BOT.RETRY_DELAY\<close>, the defaults of the wrapper.\<close>

definition MAX_RETRIES :: nat where
  "MAX_RETRIES = 3"

definition RETRY_DELAY :: nat where
  "RETRY_DELAY = 5000"

text \<open>The waits a run performed, in order, and the number of calls it made.\<close>

fun delays :: "retry_step list \<Rightarrow> nat list" where
  "delays [] = []"
| "delays (Attempt i # steps) = delays steps"
| "delays (Wait d # steps) = d # delays steps"

fun attempts :: "retry_step list \<Rightarrow> nat" where
  "attempts [] = 0"
| "attempts (Attempt i # steps) = Suc (attempts steps)"
| "attempts (Wait d # steps) = attempts steps"

section \<open>Configuration and the outside world\<close>

text \<open>
  The process-wide configuration the handlers read: whether the OpenAI client was created
  (the module variable \<^verbatim>\<open>openai\<close> is not \<^verbatim>\<open>null\<close>) and whether
  \<^verbatim>\<open>process.env.ELEVEN_API_KEY\<close> is set.
\<close>

record config =
  openai :: bool
  ELEVEN_API_KEY :: bool

text \<open>The environment variables \<^verbatim>\<open>StateManager.initializeState\<close> reads.\<close>

record environment =
  AUTHORIZED_USERS :: "string option"
  ADMIN_USERS :: "string option"

text \<open>
  Errors are values. \<open>External\<close> is an error raised by a collaborator (Telegram, OpenAI,
  ElevenLabs, the file system) with its message; the other constructors are the errors
  the code creates itself, the wrapping ones holding the error they report.
  \<open>TypeError\<close> is what reading a property of \<^verbatim>\<open>undefined\<close> throws.
\<close>

datatype error =
    External string
  | TypeError
  | GptUnavailable
  | UnexpectedGptResponse
  | GptFailed error
  | TtsNotConfigured
  | InvalidTtsResponse int
  | TtsFailed error
  | StsNotConfigured
  | InputNotFound
  | InvalidStsResponse int
  | StsFailed error
  | DownloadEmpty
  | TransformedMissing

text \<open>
  A \<^verbatim>\<open>catch (error)\<close> block that builds a new error from \<^verbatim>\<open>error.response\<close> and
  \<^verbatim>\<open>error.message\<close>: on the value \<^verbatim>\<open>undefined\<close> (which \<^verbatim>\<open>Utils.retry\<close> throws
  when it made no attempt) the property access itself throws.
\<close>

definition rethrow :: "(error \<Rightarrow> error) \<Rightarrow> error option \<Rightarrow> error" where
  "rethrow wrap e = (case e of None \<Rightarrow> TypeError | Some x \<Rightarrow> wrap x)"

text \<open>An HTTP response with binary data: the status and the length of the data, if any.\<close>

record response =
  status :: int
  data_length :: "nat option"

definition noData :: "nat option \<Rightarrow> bool" where
  "noData d = (case d of None \<Rightarrow> True | Some n \<Rightarrow> n = 0)"

text \<open>The temporary files a pipeline creates under \<^verbatim>\<open>CONFIG.TMP_DIR\<close>.\<close>

datatype artifact = TtsOutput | V2VInput | StsOutput

text \<open>
  The outcomes of the external calls of one handler run. Every call a handler awaits
  either succeeds or throws; a field of type \<open>error option\<close> is \<open>None\<close> when its call
  succeeds. Calls whose failure the code swallows with \<^verbatim>\<open>.catch(()=>{})\<close> and whose result
  it does not use need no outcome.
\<close>

record world =
  loading_sent :: bool
  edit_ok :: bool
  reply_error :: "error option"
  reply_audio_error :: "error option"
  gpt_attempt :: "nat \<Rightarrow> error + string option"
  tts_attempt :: "nat \<Rightarrow> error + response"
  sts_attempt :: "nat \<Rightarrow> error + response"
  file_link_error :: "error option"
  download :: "error + nat option"
  write_error :: "artifact \<Rightarrow> error option"
  read_error :: "error option"
  file_exists :: "artifact \<Rightarrow> bool"
  unlink_ok :: "artifact \<Rightarrow> bool"

text \<open>
  \<open>loading_sent\<close>: the progress message was delivered, so \<^verbatim>\<open>loadingMessage\<close> is set.
  \<open>edit_ok\<close>: the \<^verbatim>\<open>editMessageText\<close> that has a fallback reply succeeded.
  \<open>reply_error\<close>: the awaited \<^verbatim>\<open>ctx.reply\<close> of \<^verbatim>\<open>/v2v\<close>, the only one without a catch.
  \<open>gpt_attempt\<close>, \<open>tts_attempt\<close>, \<open>sts_attempt\<close>: the backend calls under \<^verbatim>\<open>Utils.retry\<close>,
  by attempt; a completion is its \<^verbatim>\<open>choices[0].message.content\<close>, if present.
\<close>

section \<open>Voice settings\<close>

text \<open>The defaults of \<^verbatim>\<open>CONFIG.ELEVEN_LABS\<close>.\<close>

definition STABILITY :: jsnum where
  "STABILITY = Fin (30 / 100)"

definition SIMILARITY_BOOST :: jsnum where
  "SIMILARITY_BOOST = Fin 1"

definition STYLE :: jsnum where
  "STYLE = Fin (7 / 10)"

definition SPEED :: jsnum where
  "SPEED = Fin 1"

definition USE_SPEAKER_BOOST :: bool where
  "USE_SPEAKER_BOOST = True"

text \<open>The \<^verbatim>\<open>options\<close> object of \<^verbatim>\<open>generateVoice\<close>: \<open>None\<close> is a property that is \<^verbatim>\<open>undefined\<close>.\<close>

record options =
  stability :: "jsnum option"
  similarity_boost :: "jsnum option"
  style :: "jsnum option"
  speed :: "jsnum option"
  use_speaker_boost :: "bool option"

definition noOptions :: options where
  "noOptions = \<lparr>stability = None, similarity_boost = None, style = None, speed = None,
                use_speaker_boost = None\<rparr>"

record voice_settings =
  vs_stability :: jsnum
  vs_similarity_boost :: jsnum
  vs_style :: jsnum
  vs_speed :: jsnum
  vs_use_speaker_boost :: bool

text \<open>\<^verbatim>\<open>finalSettings\<close> of \<^verbatim>\<open>ApiService.generateVoice\<close>.\<close>

definition finalSettings :: "options \<Rightarrow> voice_settings" where
  "finalSettings opts =
     \<lparr>vs_stability =
        (case stability opts of
           Some v \<Rightarrow> Math_max (Fin 0) (Math_min (Fin 1) v)
         | None \<Rightarrow> STABILITY),
      vs_similarity_boost =
        (case similarity_boost opts of
           Some v \<Rightarrow> Math_max (Fin 0) (Math_min (Fin 1) v)
         | None \<Rightarrow> SIMILARITY_BOOST),
      vs_style =
        (case style opts of
           Some v \<Rightarrow> Math_max (Fin 0) v
         | None \<Rightarrow> STYLE),
      vs_speed =
        (case speed opts of
           Some v \<Rightarrow> Math_max (Fin (1 / 2)) (Math_min (Fin 2) v)
         | None \<Rightarrow> SPEED),
      vs_use_speaker_boost =
        (case use_speaker_boost opts of
           Some b \<Rightarrow> b
         | None \<Rightarrow> USE_SPEAKER_BOOST)\<rparr>"

section \<open>Messages to the user and observable events\<close>

datatype flag = StabilityFlag | StyleFlag | SpeedFlag

text \<open>
  The two parse errors of \<^verbatim>\<open>/t2v\<close>: a value that is not a number after a flag (with the
  offending part), and a flag at the end with no value.
\<close>

datatype parse_error = ExpectedNumber flag string | MissingValue flag

text \<open>
  The texts the handlers send, one constructor per text of the source. The three
  \<open>StillProcessing\<close> notices all start with \<^verbatim>\<open>Ya estoy procesando tu solicitud anterior\<close>.
\<close>

datatype notice =
    GptDisabledCommand
  | MissingTextAfterT
  | OptionsError parse_error
  | NoTextToConvert
  | StillProcessing
  | StillProcessingT2V
  | StillProcessingAudio
  | PreparingVoice
  | GeneratingAudio
  | SendingVoice
  | VoiceError error
  | AlreadyWaitingAudio
  | ReadySendAudio
  | V2VStartError error
  | NoConversationToReset
  | ConversationReset
  | V2VCancelled
  | GptDisabledMessage
  | UnsolicitedVoice
  | UnsolicitedAudio
  | GptUnavailableNotice
  | Thinking
  | GptAnswer string
  | GptError error
  | ReceivedAudio string
  | Transforming
  | SendingTransformed
  | TransformError error

definition isStillProcessing :: "notice \<Rightarrow> bool" where
  "isStillProcessing n = (n = StillProcessing \<or> n = StillProcessingT2V \<or> n = StillProcessingAudio)"

record message =
  role :: string
  content :: string

text \<open>
  What a handler run does to the outside, in order: the trace of a run. Calls to the
  logger are left out.
\<close>

datatype event =
    Reply notice
  | ChatAction string
  | EditMessage notice
  | DeleteMessage
  | ReplyWithAudio artifact
  | GetFileLink
  | Download
  | WriteFile artifact
  | ReadFile artifact
  | Unlink artifact
  | GptRequest "message list"
  | TtsRequest string voice_settings
  | StsRequest
  | Sleep nat

text \<open>The trace of a backend call under \<^verbatim>\<open>Utils.retry\<close>: one request per attempt.\<close>

fun stepEvent :: "event \<Rightarrow> retry_step \<Rightarrow> event" where
  "stepEvent request (Attempt i) = request"
| "stepEvent request (Wait d) = Sleep d"

definition isBackendCall :: "event \<Rightarrow> bool" where
  "isBackendCall e = (case e of GptRequest m \<Rightarrow> True | TtsRequest t v \<Rightarrow> True
                       | StsRequest \<Rightarrow> True | _ \<Rightarrow> False)"

text \<open>
  How a \<^verbatim>\<open>catch\<close> block tells the user: it edits the progress message if there is one,
  replying instead when the edit fails, and replies when there is none.
\<close>

definition reportError :: "world \<Rightarrow> notice \<Rightarrow> event list" where
  "reportError w n =
     (if loading_sent w then EditMessage n # (if edit_ok w then [] else [Reply n])
      else [Reply n])"

section \<open>ApiService\<close>

definition generateGPTResponse :: "config \<Rightarrow> world \<Rightarrow> message list \<Rightarrow> (error + string) \<times> event list" where
  "generateGPTResponse cfg w messages =
     (if \<not> openai cfg then (Inl GptUnavailable, [])
      else
        (let (r, steps) = retry (gpt_attempt w) MAX_RETRIES RETRY_DELAY;
             t = map (stepEvent (GptRequest messages)) steps
         in case r of
              Inl lastError \<Rightarrow> (Inl (rethrow GptFailed lastError), t)
            | Inr completion \<Rightarrow>
                (case completion of
                   None \<Rightarrow> (Inl (GptFailed UnexpectedGptResponse), t)
                 | Some responseText \<Rightarrow>
                     if responseText = [] then (Inl (GptFailed UnexpectedGptResponse), t)
                     else (Inr (trim responseText), t))))"

definition generateVoice :: "config \<Rightarrow> world \<Rightarrow> string \<Rightarrow> options \<Rightarrow> (error + artifact) \<times> event list" where
  "generateVoice cfg w txt opts =
     (if \<not> ELEVEN_API_KEY cfg then (Inl TtsNotConfigured, [])
      else
        (let (r, steps) = retry (tts_attempt w) MAX_RETRIES RETRY_DELAY;
             t = map (stepEvent (TtsRequest txt (finalSettings opts))) steps
         in case r of
              Inl lastError \<Rightarrow> (Inl (rethrow TtsFailed lastError), t)
            | Inr resp \<Rightarrow>
                if status resp \<noteq> 200 \<or> noData (data_length resp)
                then (Inl (TtsFailed (InvalidTtsResponse (status resp))), t)
                else
                  (case write_error w TtsOutput of
                     Some e \<Rightarrow> (Inl (TtsFailed e), t @ [WriteFile TtsOutput])
                   | None \<Rightarrow> (Inr TtsOutput, t @ [WriteFile TtsOutput]))))"

definition transformVoice :: "config \<Rightarrow> world \<Rightarrow> artifact \<Rightarrow> (error + artifact) \<times> event list" where
  "transformVoice cfg w audioFilePath =
     (if \<not> ELEVEN_API_KEY cfg then (Inl StsNotConfigured, [])
      else if \<not> file_exists w audioFilePath then (Inl (StsFailed InputNotFound), [])
      else
        (case read_error w of
           Some e \<Rightarrow> (Inl (StsFailed e), [ReadFile audioFilePath])
         | None \<Rightarrow>
             (let (r, steps) = retry (sts_attempt w) MAX_RETRIES RETRY_DELAY;
                  t = ReadFile audioFilePath # map (stepEvent StsRequest) steps
              in case r of
                   Inl lastError \<Rightarrow> (Inl (rethrow StsFailed lastError), t)
                 | Inr resp \<Rightarrow>
                     if status resp \<noteq> 200 \<or> noData (data_length resp)
                     then (Inl (StsFailed (InvalidStsResponse (status resp))), t)
                     else
                       (case write_error w StsOutput of
                          Some e \<Rightarrow> (Inl (StsFailed e), t @ [WriteFile StsOutput])
                        | None \<Rightarrow> (Inr StsOutput, t @ [WriteFile StsOutput])))))"

section \<open>StateManager\<close>

text \<open>
  The fields of \<^verbatim>\<open>StateManager\<close> the handlers below use. A \<^verbatim>\<open>Map\<close> is a partial function
  and a \<^verbatim>\<open>Set\<close> a set. \<^verbatim>\<open>userSessions\<close>, which only the authorisation middleware
  writes, is left out.
\<close>

record state =
  authorizedUsers :: "int set"
  adminUsers :: "int set"
  pendingOperations :: "int \<rightharpoonup> string"
  conversations :: "int \<rightharpoonup> message list"
  pendingVoiceTransformations :: "int \<rightharpoonup> int"

text \<open>
  \<^verbatim>\<open>parseIds\<close> of \<^verbatim>\<open>initializeState\<close>: an unset or empty variable gives no identifier;
  otherwise the variable is split at commas, every piece is trimmed and given to
  \<^verbatim>\<open>parseInt\<close>, and the results that are \<^verbatim>\<open>NaN\<close> are filtered out.
\<close>

definition parseIds :: "string option \<Rightarrow> int option list" where
  "parseIds envVar =
     (case envVar of
        None \<Rightarrow> []
      | Some v \<Rightarrow>
          if v = [] then []
          else filter (\<lambda>i. i \<noteq> None) (map (\<lambda>i. parseInt (trim i)) (split_char CHR '','' v)))"

definition newSet :: "int option list \<Rightarrow> int set" where
  "newSet ids = set (concat (map (\<lambda>i. case i of None \<Rightarrow> [] | Some n \<Rightarrow> [n]) ids))"

definition initializeState :: "environment \<Rightarrow> state" where
  "initializeState env =
     \<lparr>authorizedUsers = newSet (parseIds (AUTHORIZED_USERS env)),
      adminUsers = newSet (parseIds (ADMIN_USERS env)),
      pendingOperations = Map.empty,
      conversations = Map.empty,
      pendingVoiceTransformations = Map.empty\<rparr>"



text \<open>
  The system prompt is a fixed text that no code inspects; the model keeps its first
  sentence.
\<close>

definition getSystemPrompt :: string where
  "getSystemPrompt =
     ''You are Javier Soto, a highly experienced Assistant Director in the film industry.''"

definition systemEntry :: message where
  "systemEntry = \<lparr>role = ''system'', content = getSystemPrompt\<rparr>"

text \<open>
  \<^verbatim>\<open>getConversation\<close> returns the stored history, first storing a history with only the
  system entry when the user has none. The returned array is the stored one; the model
  returns it with the state.
\<close>

definition getConversation :: "int \<Rightarrow> state \<Rightarrow> message list \<times> state" where
  "getConversation userId s =
     (case conversations s userId of
        None \<Rightarrow> ([systemEntry], s\<lparr>conversations := (conversations s)(userId \<mapsto> [systemEntry])\<rparr>)
      | Some c \<Rightarrow> (c, s))"

text \<open>\<^verbatim>\<open>array.splice(start, deleteCount)\<close> for \<open>start\<close> within the array.\<close>

definition splice :: "'a list \<Rightarrow> nat \<Rightarrow> nat \<Rightarrow> 'a list" where
  "splice xs start deleteCount = take start xs @ drop (start + deleteCount) xs"

definition maxHistoryPairs :: nat where
  "maxHistoryPairs = 10"

definition maxMessages :: nat where
  "maxMessages = 1 + maxHistoryPairs * 2"

text \<open>
  \<^verbatim>\<open>addMessageToConversation\<close>: nothing without the OpenAI client; otherwise the entry is
  pushed on the stored history, and a history longer than \<open>maxMessages\<close> loses the
  entries from index 1 on that exceed it.
\<close>

definition addMessageToConversation :: "config \<Rightarrow> int \<Rightarrow> string \<Rightarrow> string \<Rightarrow> state \<Rightarrow> state" where
  "addMessageToConversation cfg userId r c s =
     (if \<not> openai cfg then s
      else
        (let (conversation, s1) = getConversation userId s;
             pushed = conversation @ [\<lparr>role = r, content = c\<rparr>];
             limited = (if length pushed > maxMessages
                        then splice pushed 1 (length pushed - maxMessages)
                        else pushed)
         in s1\<lparr>conversations := (conversations s1)(userId \<mapsto> limited)\<rparr>))"

definition setPendingVoiceTransformation :: "int \<Rightarrow> int \<Rightarrow> state \<Rightarrow> state" where
  "setPendingVoiceTransformation userId initiatingMessageId s =
     s\<lparr>pendingVoiceTransformations := (pendingVoiceTransformations s)(userId \<mapsto> initiatingMessageId)\<rparr>"

definition getPendingVoiceTransformation :: "state \<Rightarrow> int \<Rightarrow> int option" where
  "getPendingVoiceTransformation s userId = pendingVoiceTransformations s userId"

definition clearPendingVoiceTransformation :: "int \<Rightarrow> state \<Rightarrow> state" where
  "clearPendingVoiceTransformation userId s =
     (if pendingVoiceTransformations s userId \<noteq> None
      then s\<lparr>pendingVoiceTransformations := (pendingVoiceTransformations s)(userId := None)\<rparr>
      else s)"

text \<open>
  \<^verbatim>\<open>if (pendingV2V)\<close> on the stored message identifier: \<^verbatim>\<open>undefined\<close> and 0 are falsy.
\<close>

definition truthy :: "int option \<Rightarrow> bool" where
  "truthy v = (case v of None \<Rightarrow> False | Some n \<Rightarrow> n \<noteq> 0)"

definition setPendingOperation :: "int \<Rightarrow> string \<Rightarrow> state \<Rightarrow> state" where
  "setPendingOperation userId operationType s =
     s\<lparr>pendingOperations := (pendingOperations s)(userId \<mapsto> operationType)\<rparr>"

definition hasPendingOperation :: "state \<Rightarrow> int \<Rightarrow> bool" where
  "hasPendingOperation s userId = (pendingOperations s userId \<noteq> None)"

definition clearPendingOperation :: "int \<Rightarrow> state \<Rightarrow> state" where
  "clearPendingOperation userId s =
     (if pendingOperations s userId \<noteq> None
      then s\<lparr>pendingOperations := (pendingOperations s)(userId := None)\<rparr>
      else s)"

section \<open>Handlers and pipelines\<close>

text \<open>
  The Telegraf context of an update: the sender, the identifier of the message and its
  text. A handler takes the configuration, the outcomes of its external calls, the
  context and the state, and returns the state it leaves and the trace of what it did.
  A handler is modelled from its call to its end, as one step: what it awaits is in the
  outcomes. A \<^verbatim>\<open>finally\<close> block runs on every exit of its \<^verbatim>\<open>try\<close> statement, so the
  model applies it after the \<^verbatim>\<open>try\<close> and \<^verbatim>\<open>catch\<close> blocks on every path. Every awaited
  call in a \<^verbatim>\<open>catch\<close> block swallows its own failure, so no handler below throws, and
  the global error handler of \<^verbatim>\<open>setupErrorHandler\<close>, which would clear the lock and the
  intent of the user, is never reached from them; it is not modelled, and neither are
  the authorisation middleware and \<^verbatim>\<open>/help\<close>, which touch none of the three maps.
\<close>

record ctx =
  from_id :: int
  message_id :: int
  message_text :: string

subsection \<open>The text-generation pipeline\<close>

text \<open>
  The \<^verbatim>\<open>try\<close> and \<^verbatim>\<open>catch\<close> blocks of \<^verbatim>\<open>processGPTMessage\<close>, entered with the lock
  set. The user's message is appended before the backend call and stays in the history
  when the call fails.
\<close>

definition gptTryCatch :: "config \<Rightarrow> world \<Rightarrow> int \<Rightarrow> string \<Rightarrow> state \<Rightarrow> state \<times> event list" where
  "gptTryCatch cfg w userId userMessage s =
     (let t0 = Reply Thinking # (if loading_sent w then [ChatAction ''typing''] else []);
          s1 = addMessageToConversation cfg userId ''user'' userMessage s;
          (conversation, s2) = getConversation userId s1;
          (r, t1) = generateGPTResponse cfg w conversation
      in case r of
           Inl err \<Rightarrow> (s2, t0 @ t1 @ reportError w (GptError err))
         | Inr gptResponse \<Rightarrow>
             (addMessageToConversation cfg userId ''assistant'' gptResponse s2,
              t0 @ t1 @
              (if loading_sent w
               then EditMessage (GptAnswer gptResponse) #
                    (if edit_ok w then [] else [Reply (GptAnswer gptResponse), DeleteMessage])
               else [Reply (GptAnswer gptResponse)])))"

definition processGPTMessage :: "config \<Rightarrow> world \<Rightarrow> ctx \<Rightarrow> string \<Rightarrow> state \<Rightarrow> state \<times> event list" where
  "processGPTMessage cfg w c userMessage s =
     (let userId = from_id c in
      if \<not> openai cfg then (s, [Reply GptUnavailableNotice])
      else if hasPendingOperation s userId then (s, [Reply StillProcessing])
      else
        (let s1 = setPendingOperation userId ''gpt_generating'' s;
             (s2, t) = gptTryCatch cfg w userId userMessage s1
         in (clearPendingOperation userId s2, t)))"

subsection \<open>The text-to-speech pipeline\<close>

text \<open>The mutable variables of the flag parser of \<^verbatim>\<open>handleTextToVoiceCommand\<close>.\<close>

record parser =
  overrideOptions :: options
  textParts :: "string list"
  currentFlag :: "flag option"
  parsingError :: "parse_error option"

definition setOverride :: "flag \<Rightarrow> jsnum \<Rightarrow> options \<Rightarrow> options" where
  "setOverride f v opts =
     (case f of
        StabilityFlag \<Rightarrow> opts\<lparr>stability := Some v\<rparr>
      | StyleFlag \<Rightarrow> opts\<lparr>style := Some v\<rparr>
      | SpeedFlag \<Rightarrow> opts\<lparr>speed := Some v\<rparr>)"

text \<open>
  The loop over the parts: a flag sets \<open>currentFlag\<close>; any other part is the value of
  the pending flag, if there is one, and else a part of the text. A value that is not a
  number sets the error and leaves the loop with the flag still pending.
\<close>

fun parseParts :: "string list \<Rightarrow> parser \<Rightarrow> parser" where
  "parseParts [] p = p"
| "parseParts (part # rest) p =
     (if part = ''-s'' then parseParts rest (p\<lparr>currentFlag := Some StabilityFlag\<rparr>)
      else if part = ''-x'' then parseParts rest (p\<lparr>currentFlag := Some StyleFlag\<rparr>)
      else if part = ''-v'' then parseParts rest (p\<lparr>currentFlag := Some SpeedFlag\<rparr>)
      else
        (case currentFlag p of
           Some f \<Rightarrow>
             (let v = parseFloat part in
              if \<not> isNaN v
              then parseParts rest
                     (p\<lparr>overrideOptions := setOverride f v (overrideOptions p), currentFlag := None\<rparr>)
              else p\<lparr>parsingError := Some (ExpectedNumber f part)\<rparr>)
         | None \<Rightarrow> parseParts rest (p\<lparr>textParts := textParts p @ [part]\<rparr>)))"

text \<open>
  Step 1 of the handler: the text is split at white space, the command is dropped, the
  loop runs, and a flag still pending with no error so far is the second parse error.
\<close>

definition parseT2V :: "string \<Rightarrow> parser" where
  "parseT2V messageText =
     (let parts = tl (split_ws messageText);
          p = parseParts parts
                \<lparr>overrideOptions = noOptions, textParts = [], currentFlag = None,
                 parsingError = None\<rparr>
      in case currentFlag p of
           Some f \<Rightarrow> (if parsingError p = None then p\<lparr>parsingError := Some (MissingValue f)\<rparr> else p)
         | None \<Rightarrow> p)"

text \<open>
  The \<^verbatim>\<open>try\<close>, \<^verbatim>\<open>catch\<close> and \<^verbatim>\<open>finally\<close> blocks of the handler but for the release of
  the lock; they do not touch the state.
\<close>

definition t2vRun :: "config \<Rightarrow> world \<Rightarrow> string \<Rightarrow> options \<Rightarrow> event list" where
  "t2vRun cfg w textToConvert opts =
     (let t0 = Reply PreparingVoice #
               (if loading_sent w then [ChatAction ''record_voice'', EditMessage GeneratingAudio]
                else []);
          (r, t1) = generateVoice cfg w textToConvert opts
      in case r of
           Inl err \<Rightarrow> t0 @ t1 @ reportError w (VoiceError err)
         | Inr audioFilePath \<Rightarrow>
             (let t2 = (if loading_sent w then [EditMessage SendingVoice, ChatAction ''upload_voice'']
                        else []) @ [ReplyWithAudio audioFilePath];
                  t3 = (case reply_audio_error w of
                          None \<Rightarrow> (if loading_sent w then [DeleteMessage] else [])
                        | Some err \<Rightarrow> reportError w (VoiceError err));
                  cleanup = (if file_exists w audioFilePath then [Unlink audioFilePath] else [])
              in t0 @ t1 @ t2 @ t3 @ cleanup))"

definition handleTextToVoiceCommand :: "config \<Rightarrow> world \<Rightarrow> ctx \<Rightarrow> state \<Rightarrow> state \<times> event list" where
  "handleTextToVoiceCommand cfg w c s =
     (let userId = from_id c;
          p = parseT2V (message_text c)
      in case parsingError p of
           Some e \<Rightarrow> (s, [Reply (OptionsError e)])
         | None \<Rightarrow>
             (let textToConvert = trim (join_space (textParts p)) in
              if textToConvert = [] then (s, [Reply NoTextToConvert])
              else if hasPendingOperation s userId then (s, [Reply StillProcessingT2V])
              else
                (let s1 = setPendingOperation userId ''t2v_converting'' s;
                     t = t2vRun cfg w textToConvert (overrideOptions p)
                 in (clearPendingOperation userId s1, t))))"

subsection \<open>The voice-transform pipeline\<close>

text \<open>
  The \<^verbatim>\<open>try\<close> block of \<^verbatim>\<open>processVoiceTransformation\<close>: the error it throws, if any,
  whether \<^verbatim>\<open>tempInputFilePath\<close> and \<^verbatim>\<open>transformedFilePath\<close> were assigned, and the trace.
\<close>

definition v2vTry :: "config \<Rightarrow> world \<Rightarrow> string \<Rightarrow> (error option \<times> bool \<times> bool) \<times> event list" where
  "v2vTry cfg w typeLabel =
     (let t0 = Reply (ReceivedAudio typeLabel) #
               (if loading_sent w then [ChatAction ''typing''] else []) @ [GetFileLink]
      in case file_link_error w of
           Some err \<Rightarrow> ((Some err, False, False), t0)
         | None \<Rightarrow>
             (case download w of
                Inl err \<Rightarrow> ((Some err, False, False), t0 @ [Download])
              | Inr d \<Rightarrow>
                  if noData d then ((Some DownloadEmpty, False, False), t0 @ [Download])
                  else
                    (case write_error w V2VInput of
                       Some err \<Rightarrow> ((Some err, True, False), t0 @ [Download, WriteFile V2VInput])
                     | None \<Rightarrow>
                         (let t1 = t0 @ [Download, WriteFile V2VInput] @
                                   (if loading_sent w
                                    then [EditMessage Transforming, ChatAction ''record_voice'']
                                    else []);
                              (r, t2) = transformVoice cfg w V2VInput
                          in case r of
                               Inl err \<Rightarrow> ((Some err, True, False), t1 @ t2)
                             | Inr transformedFilePath \<Rightarrow>
                                 (let t3 = t1 @ t2 @
                                           (if loading_sent w
                                            then [EditMessage SendingTransformed,
                                                  ChatAction ''upload_voice'']
                                            else [])
                                  in if \<not> file_exists w transformedFilePath
                                     then ((Some TransformedMissing, True, True), t3)
                                     else
                                       (case reply_audio_error w of
                                          Some err \<Rightarrow>
                                            ((Some err, True, True),
                                             t3 @ [ReplyWithAudio transformedFilePath])
                                        | None \<Rightarrow>
                                            ((None, True, True),
                                             t3 @ [ReplyWithAudio transformedFilePath] @
                                             (if loading_sent w then [DeleteMessage] else []))))))))"

text \<open>
  The \<^verbatim>\<open>finally\<close> block but for the release of the lock: both files are unlinked inside
  one \<^verbatim>\<open>try\<close>, so a failing unlink of the input skips the output.
\<close>

definition v2vCleanup :: "world \<Rightarrow> bool \<Rightarrow> bool \<Rightarrow> event list" where
  "v2vCleanup w inputSet outputSet =
     (let unlinkInput = inputSet \<and> file_exists w V2VInput;
          t = (if unlinkInput then [Unlink V2VInput] else [])
      in if unlinkInput \<and> \<not> unlink_ok w V2VInput then t
         else t @ (if outputSet \<and> file_exists w StsOutput then [Unlink StsOutput] else []))"

definition v2vRun :: "config \<Rightarrow> world \<Rightarrow> string \<Rightarrow> event list" where
  "v2vRun cfg w typeLabel =
     (let ((thrown, inputSet, outputSet), t) = v2vTry cfg w typeLabel
      in t @ (case thrown of None \<Rightarrow> [] | Some err \<Rightarrow> reportError w (TransformError err)) @
         v2vCleanup w inputSet outputSet)"

definition processVoiceTransformation :: "config \<Rightarrow> world \<Rightarrow> ctx \<Rightarrow> string \<Rightarrow> state \<Rightarrow> state \<times> event list" where
  "processVoiceTransformation cfg w c typeLabel s =
     (let userId = from_id c;
          s0 = clearPendingVoiceTransformation userId s
      in if hasPendingOperation s0 userId then (s0, [Reply StillProcessingAudio])
         else
           (let s1 = setPendingOperation userId ''v2v_transforming'' s0;
                t = v2vRun cfg w typeLabel
            in (clearPendingOperation userId s1, t)))"

subsection \<open>Command and message handlers\<close>

text \<open>
  The capture group of \<^verbatim>\<open>/^\/t\s+(.+)$/s\<close> on the text of the message: the text must be
  \<^verbatim>\<open>/t\<close>, then white space, then at least one more character. The white space is
  matched greedily, so the group starts at the first character that is not white space;
  when only white space follows \<^verbatim>\<open>/t\<close> the group is its last character.
\<close>

definition matchTextCommand :: "string \<Rightarrow> string option" where
  "matchTextCommand t =
     (let rest = drop 2 t in
      if take 2 t = ''/t'' \<and> 2 \<le> length rest \<and> isSpace (hd rest)
      then Some (if dropWhile isSpace rest = [] then [last rest] else dropWhile isSpace rest)
      else None)"

definition handleTextCommand :: "config \<Rightarrow> world \<Rightarrow> ctx \<Rightarrow> state \<Rightarrow> state \<times> event list" where
  "handleTextCommand cfg w c s =
     (if \<not> openai cfg then (s, [Reply GptDisabledCommand])
      else
        (case matchTextCommand (message_text c) of
           None \<Rightarrow> (s, [Reply MissingTextAfterT])
         | Some g \<Rightarrow>
             if trim g = [] then (s, [Reply MissingTextAfterT])
             else processGPTMessage cfg w c (trim g) s))"

definition handleVoiceToVoiceCommand :: "config \<Rightarrow> world \<Rightarrow> ctx \<Rightarrow> state \<Rightarrow> state \<times> event list" where
  "handleVoiceToVoiceCommand cfg w c s =
     (let userId = from_id c in
      if hasPendingOperation s userId then (s, [Reply StillProcessing])
      else if truthy (getPendingVoiceTransformation s userId) then (s, [Reply AlreadyWaitingAudio])
      else
        (let s1 = setPendingVoiceTransformation userId (message_id c) s in
         case reply_error w of
           None \<Rightarrow> (s1, [Reply ReadySendAudio])
         | Some err \<Rightarrow>
             (clearPendingVoiceTransformation userId s1,
              [Reply ReadySendAudio, Reply (V2VStartError err)])))"

definition handleResetConversation :: "config \<Rightarrow> world \<Rightarrow> ctx \<Rightarrow> state \<Rightarrow> state \<times> event list" where
  "handleResetConversation cfg w c s =
     (let userId = from_id c in
      if \<not> openai cfg then (s, [Reply NoConversationToReset])
      else (s\<lparr>conversations := (conversations s)(userId := None)\<rparr>, [Reply ConversationReset]))"

text \<open>
  \<^verbatim>\<open>handleMessage\<close>, for text that is not a registered command: an empty or blank text
  and a text that starts with \<^verbatim>\<open>/\<close> are ignored.
\<close>

definition handleMessage :: "config \<Rightarrow> world \<Rightarrow> ctx \<Rightarrow> state \<Rightarrow> state \<times> event list" where
  "handleMessage cfg w c s =
     (let userId = from_id c;
          userMessage = message_text c
      in if userMessage = [] \<or> length (trim userMessage) < 1 \<or> take 1 userMessage = ''/''
         then (s, [])
         else if truthy (getPendingVoiceTransformation s userId)
         then (clearPendingVoiceTransformation userId s, [Reply V2VCancelled])
         else if \<not> openai cfg then (s, [Reply GptDisabledMessage])
         else processGPTMessage cfg w c userMessage s)"

definition handleVoiceMessage :: "config \<Rightarrow> world \<Rightarrow> ctx \<Rightarrow> state \<Rightarrow> state \<times> event list" where
  "handleVoiceMessage cfg w c s =
     (let userId = from_id c in
      if truthy (getPendingVoiceTransformation s userId)
      then processVoiceTransformation cfg w c ''mensaje de voz'' s
      else (s, [Reply UnsolicitedVoice]))"

definition handleAudioMessage :: "config \<Rightarrow> world \<Rightarrow> ctx \<Rightarrow> state \<Rightarrow> state \<times> event list" where
  "handleAudioMessage cfg w c s =
     (let userId = from_id c in
      if truthy (getPendingVoiceTransformation s userId)
      then processVoiceTransformation cfg w c ''archivo de audio'' s
      else (s, [Reply UnsolicitedAudio]))"


text \<open>
  The two kinds of update that carry audio, as \<^verbatim>\<open>setupMessageHandlers\<close> registers them:
  \<^verbatim>\<open>voice\<close> goes to \<open>handleVoiceMessage\<close> and \<^verbatim>\<open>audio\<close> to \<open>handleAudioMessage\<close>.
\<close>

datatype audio_update = VoiceUpdate | AudioUpdate

definition handleAudioUpdate ::
  "audio_update \<Rightarrow> config \<Rightarrow> world \<Rightarrow> ctx \<Rightarrow> state \<Rightarrow> state \<times> event list" where
  "handleAudioUpdate k =
     (case k of VoiceUpdate \<Rightarrow> handleVoiceMessage | AudioUpdate \<Rightarrow> handleAudioMessage)"

section \<open>Notions used to state the properties\<close>


text \<open>
  \<open>r\<close> is \<open>v\<close> clamped to the range from \<open>lo\<close> to \<open>hi\<close>: it lies in the range, and it
  is the nearer bound when \<open>v\<close> is outside and \<open>v\<close> itself otherwise.
\<close>

definition isClamped :: "jsnum \<Rightarrow> jsnum \<Rightarrow> jsnum \<Rightarrow> jsnum \<Rightarrow> bool" where
  "isClamped lo hi v r =
     (num_le lo r \<and> num_le r hi \<and>
      (if num_le v lo then r = lo else if num_le hi v then r = hi else r = v))"

text \<open>No override of the three options of \<^verbatim>\<open>/t2v\<close> is \<^verbatim>\<open>NaN\<close>.\<close>

definition numeric :: "options \<Rightarrow> bool" where
  "numeric opts = (stability opts \<noteq> Some NaN \<and> style opts \<noteq> Some NaN \<and> speed opts \<noteq> Some NaN)"

text \<open>A sequence of appends to the history of one user, each a role and a content.\<close>

definition appendAll :: "config \<Rightarrow> int \<Rightarrow> (string \<times> string) list \<Rightarrow> state \<Rightarrow> state" where
  "appendAll cfg userId entries s =
     foldl (\<lambda>st (r, c). addMessageToConversation cfg userId r c st) s entries"

text \<open>
  The invariant of a history: a user with a history has at most 21 entries, the first
  of which is the system entry.
\<close>

definition historyBounded :: "state \<Rightarrow> int \<Rightarrow> bool" where
  "historyBounded s userId =
     (case conversations s userId of
        None \<Rightarrow> True
      | Some h \<Rightarrow> h \<noteq> [] \<and> length h \<le> 21 \<and> hd h = systemEntry)"

text \<open>
  The reply to audio that no \<^verbatim>\<open>/v2v\<close> asked for, by kind of update.
\<close>

definition unsolicited :: "audio_update \<Rightarrow> notice" where
  "unsolicited k = (case k of VoiceUpdate \<Rightarrow> UnsolicitedVoice | AudioUpdate \<Rightarrow> UnsolicitedAudio)"

text \<open>
  A run of the voice-transform pipeline starts, once it holds the lock, with the reply
  that the audio was received; the number of these replies in a trace is the number of
  times the pipeline was triggered.
\<close>

definition isTransformStart :: "event \<Rightarrow> bool" where
  "isTransformStart e = (case e of Reply (ReceivedAudio l) \<Rightarrow> True | _ \<Rightarrow> False)"

definition transformStarts :: "event list \<Rightarrow> nat" where
  "transformStarts t = length (filter isTransformStart t)"

section \<open>Concrete inputs\<close>

definition quoted :: "string \<Rightarrow> string" where
  "quoted s = CHR 0x22 # s @ [CHR 0x22]"

text \<open>The three \<^verbatim>\<open>/t2v\<close> messages of the specification; \<open>quoted\<close> adds the double quotes.\<close>

definition t2vGood :: string where
  "t2vGood = ''/t2v -s 0.4 -v 1.1 '' @ quoted ''Hola''"

definition t2vNotNumber :: string where
  "t2vNotNumber = ''/t2v -s abc '' @ quoted ''Hola''"

definition t2vTrailingFlag :: string where
  "t2vTrailingFlag = ''/t2v '' @ quoted ''Hola'' @ '' -s''"

definition cfgOn :: config where
  "cfgOn = \<lparr>openai = True, ELEVEN_API_KEY = True\<rparr>"

text \<open>A run in which every external call succeeds.\<close>

definition worldOk :: world where
  "worldOk =
     \<lparr>loading_sent = True, edit_ok = True, reply_error = None, reply_audio_error = None,
      gpt_attempt = (\<lambda>i. Inr (Some ''Claro.'')),
      tts_attempt = (\<lambda>i. Inr \<lparr>status = 200, data_length = Some 1024\<rparr>),
      sts_attempt = (\<lambda>i. Inr \<lparr>status = 200, data_length = Some 1024\<rparr>),
      file_link_error = None, download = Inr (Some 2048),
      write_error = (\<lambda>a. None), read_error = None,
      file_exists = (\<lambda>a. True), unlink_ok = (\<lambda>a. True)\<rparr>"

definition envTwoUsers :: environment where
  "envTwoUsers = \<lparr>AUTHORIZED_USERS = Some ''7, 8,abc'', ADMIN_USERS = None\<rparr>"

definition idle :: state where
  "idle = initializeState envTwoUsers"

text \<open>User 7 after \<^verbatim>\<open>/v2v\<close>, and the same while a \<^verbatim>\<open>/t2v\<close> of user 7 is running.\<close>

definition armed :: state where
  "armed = setPendingVoiceTransformation 7 100 idle"

definition busyArmed :: state where
  "busyArmed = setPendingOperation 7 ''t2v_converting'' armed"

definition fullHistory :: "message list" where
  "fullHistory = systemEntry # replicate 20 \<lparr>role = ''user'', content = ''Hola''\<rparr>"

definition fullState :: state where
  "fullState = idle\<lparr>conversations := [7 \<mapsto> fullHistory]\<rparr>"

text \<open>Overrides outside their ranges: a stability above 1 and a speed below 0.5.\<close>

definition outOfRange :: options where
  "outOfRange = noOptions\<lparr>stability := Some (Fin 5), speed := Some (Fin (1 / 10))\<rparr>"

definition ctxOf :: "string \<Rightarrow> ctx" where
  "ctxOf t = \<lparr>from_id = 7, message_id = 101, message_text = t\<rparr>"

text \<open>An operation that fails twice and then succeeds, and one that always fails.\<close>

definition flaky :: "nat \<Rightarrow> string + nat" where
  "flaky i = (if i = 0 then Inl ''timeout'' else if i = 1 then Inl ''rate limit'' else Inr 42)"

definition broken :: "nat \<Rightarrow> string + nat" where
  "broken i = (if i = 0 then Inl ''first'' else if i = 1 then Inl ''second'' else Inl ''third'')"

section \<open>Properties of the parsers\<close>

lemma parseT2V_good:
  "parseT2V t2vGood =
     \<lparr>overrideOptions = noOptions\<lparr>stability := Some (Fin (4 / 10)), speed := Some (Fin (11 / 10))\<rparr>,
      textParts = [quoted ''Hola''], currentFlag = None, parsingError = None\<rparr>"
  by code_simp

lemma parseT2V_notNumber:
  "parsingError (parseT2V t2vNotNumber) = Some (ExpectedNumber StabilityFlag ''abc'')"
  by code_simp

lemma parseT2V_trailingFlag:
  "parsingError (parseT2V t2vTrailingFlag) = Some (MissingValue StabilityFlag)"
  by code_simp

text \<open>
  C6. The flag parser of \<^verbatim>\<open>/t2v\<close> on the three inputs of the specification. The message
  \<^verbatim>\<open>/t2v -s 0.4 -v 1.1 "Hola"\<close> parses without error to the overrides stability 0.4 and
  speed 1.1 (and no other) and to the text \<^verbatim>\<open>"Hola"\<close>, which keeps its double quotes.
  \<^verbatim>\<open>/t2v -s abc "Hola"\<close> is a parse error, and the handler then only replies with the
  error: whatever the configuration, the outcomes of external calls and the state, the
  state is unchanged and the trace holds no backend call. \<^verbatim>\<open>/t2v "Hola" -s\<close> is the parse
  error of a flag without a value, handled the same way.
\<close>

theorem t2v_flag_parsing:
  "overrideOptions (parseT2V t2vGood) =
     noOptions\<lparr>stability := Some (Fin (4 / 10)), speed := Some (Fin (11 / 10))\<rparr> \<and>
   parsingError (parseT2V t2vGood) = None \<and>
   trim (join_space (textParts (parseT2V t2vGood))) = quoted ''Hola'' \<and>
   parsingError (parseT2V t2vNotNumber) = Some (ExpectedNumber StabilityFlag ''abc'') \<and>
   handleTextToVoiceCommand cfg w (c\<lparr>message_text := t2vNotNumber\<rparr>) s =
     (s, [Reply (OptionsError (ExpectedNumber StabilityFlag ''abc''))]) \<and>
   filter isBackendCall (snd (handleTextToVoiceCommand cfg w (c\<lparr>message_text := t2vNotNumber\<rparr>) s)) = [] \<and>
   parsingError (parseT2V t2vTrailingFlag) = Some (MissingValue StabilityFlag) \<and>
   handleTextToVoiceCommand cfg w (c\<lparr>message_text := t2vTrailingFlag\<rparr>) s =
     (s, [Reply (OptionsError (MissingValue StabilityFlag))])"
proof -
  have body: "trim (quoted ''Hola'') = quoted ''Hola''"
    by code_simp
  show ?thesis
    by (simp add: parseT2V_good parseT2V_notNumber parseT2V_trailingFlag body
          handleTextToVoiceCommand_def isBackendCall_def)
qed





section \<open>Properties of the voice settings\<close>

lemma clamp_both:
  "v \<noteq> NaN \<Longrightarrow> num_le lo hi \<Longrightarrow> isClamped lo hi v (Math_max lo (Math_min hi v))"
  by (cases v; cases lo; cases hi) (auto simp: isClamped_def Math_max_def Math_min_def)

lemma clamp_low:
  "v \<noteq> NaN \<Longrightarrow> lo \<noteq> NaN \<Longrightarrow> isClamped lo PosInf v (Math_max lo v)"
  by (cases v; cases lo) (auto simp: isClamped_def Math_max_def)

lemma retry_first_attempt:
  "0 < n \<Longrightarrow> \<exists>rest. snd (retry fn n d) = Attempt 0 # rest"
  unfolding retry_def
  by (subst retry_from.simps) (simp add: Let_def split: sum.splits prod.splits)

lemma generateVoice_first_request:
  "ELEVEN_API_KEY cfg \<Longrightarrow>
   \<exists>rest. snd (generateVoice cfg w txt opts) = TtsRequest txt (finalSettings opts) # rest"
proof -
  assume k: "ELEVEN_API_KEY cfg"
  obtain rest where r: "snd (retry (tts_attempt w) MAX_RETRIES RETRY_DELAY) = Attempt 0 # rest"
    using retry_first_attempt [of MAX_RETRIES "tts_attempt w" RETRY_DELAY]
    by (auto simp: MAX_RETRIES_def)
  show ?thesis
    using k r
    by (cases "retry (tts_attempt w) MAX_RETRIES RETRY_DELAY")
       (auto simp: generateVoice_def Let_def split: sum.splits option.splits)
qed

lemma generateVoice_result_independent:
  "fst (generateVoice cfg w txt opts) = fst (generateVoice cfg w txt opts')"
  by (cases "retry (tts_attempt w) MAX_RETRIES RETRY_DELAY")
     (auto simp: generateVoice_def Let_def split: sum.splits option.splits)

lemma stepEvent_tts:
  "TtsRequest t v = stepEvent (TtsRequest txt fs) st \<Longrightarrow> t = txt \<and> v = fs"
  by (cases st) auto

lemma generateVoice_requests:
  "TtsRequest t v \<in> set (snd (generateVoice cfg w txt opts)) \<Longrightarrow> t = txt \<and> v = finalSettings opts"
  by (cases "retry (tts_attempt w) MAX_RETRIES RETRY_DELAY")
     (auto simp: generateVoice_def Let_def split: sum.splits option.splits if_splits
        dest: stepEvent_tts)

lemma parseParts_numeric:
  "numeric (overrideOptions p) \<Longrightarrow> numeric (overrideOptions (parseParts parts p))"
proof (induction parts arbitrary: p)
  case Nil
  then show ?case by simp
next
  case (Cons part rest)
  show ?case
  proof (cases "part = ''-s'' \<or> part = ''-x'' \<or> part = ''-v''")
    case True
    then show ?thesis
      using Cons.prems by (auto intro!: Cons.IH)
  next
    case False
    show ?thesis
    proof (cases "currentFlag p")
      case None
      then show ?thesis
        using False Cons.prems by (auto intro!: Cons.IH)
    next
      case (Some f)
      show ?thesis
      proof (cases "isNaN (parseFloat part)")
        case True
        then show ?thesis
          using False Some Cons.prems by simp
      next
        case nn: False
        have "numeric (setOverride f (parseFloat part) (overrideOptions p))"
          using nn Cons.prems by (cases f) (auto simp: numeric_def setOverride_def isNaN_def)
        then show ?thesis
          using False Some nn by (auto intro!: Cons.IH)
      qed
    qed
  qed
qed

lemma parseT2V_numeric: "numeric (overrideOptions (parseT2V t))"
proof -
  have "numeric (overrideOptions (parseParts (tl (split_ws t))
      \<lparr>overrideOptions = noOptions, textParts = [], currentFlag = None, parsingError = None\<rparr>))"
    by (rule parseParts_numeric) (simp add: numeric_def noOptions_def)
  then show ?thesis
    by (simp add: parseT2V_def Let_def split: option.splits)
qed

text \<open>
  C8. The overrides that the flag parser of \<^verbatim>\<open>/t2v\<close> hands to the pipeline are numbers,
  never \<^verbatim>\<open>NaN\<close>, whatever their size. In \<^verbatim>\<open>ApiService.generateVoice\<close>, whether the call
  succeeds or throws, and with which error, does not depend on the overrides: no value
  of an override is rejected. With the API key set the backend is called, and every
  request of the run carries the final settings. In the final settings an override that
  is not supplied is the configured default, and a supplied number is clamped to the
  range of its option: 0 to 1 for stability, 0 and above for style, 0.5 to 2 for speed.
\<close>

theorem overrides_clamped:
  "numeric (overrideOptions (parseT2V t)) \<and>
   fst (generateVoice cfg w txt opts) = fst (generateVoice cfg w txt noOptions) \<and>
   (ELEVEN_API_KEY cfg \<longrightarrow>
      (\<exists>rest. snd (generateVoice cfg w txt opts) = TtsRequest txt (finalSettings opts) # rest)) \<and>
   (\<forall>t v. TtsRequest t v \<in> set (snd (generateVoice cfg w txt opts)) \<longrightarrow> v = finalSettings opts) \<and>
   (case stability opts of
      None \<Rightarrow> vs_stability (finalSettings opts) = STABILITY
    | Some v \<Rightarrow> v \<noteq> NaN \<longrightarrow> isClamped (Fin 0) (Fin 1) v (vs_stability (finalSettings opts))) \<and>
   (case style opts of
      None \<Rightarrow> vs_style (finalSettings opts) = STYLE
    | Some v \<Rightarrow> v \<noteq> NaN \<longrightarrow> isClamped (Fin 0) PosInf v (vs_style (finalSettings opts))) \<and>
   (case speed opts of
      None \<Rightarrow> vs_speed (finalSettings opts) = SPEED
    | Some v \<Rightarrow> v \<noteq> NaN \<longrightarrow> isClamped (Fin (1 / 2)) (Fin 2) v (vs_speed (finalSettings opts)))"
proof (intro conjI)
  show "numeric (overrideOptions (parseT2V t))"
    by (rule parseT2V_numeric)
  show "fst (generateVoice cfg w txt opts) = fst (generateVoice cfg w txt noOptions)"
    by (rule generateVoice_result_independent)
  show "ELEVEN_API_KEY cfg \<longrightarrow>
      (\<exists>rest. snd (generateVoice cfg w txt opts) = TtsRequest txt (finalSettings opts) # rest)"
    by (simp add: generateVoice_first_request)
  show "\<forall>t v. TtsRequest t v \<in> set (snd (generateVoice cfg w txt opts)) \<longrightarrow> v = finalSettings opts"
    using generateVoice_requests by blast
  show "case stability opts of
      None \<Rightarrow> vs_stability (finalSettings opts) = STABILITY
    | Some v \<Rightarrow> v \<noteq> NaN \<longrightarrow> isClamped (Fin 0) (Fin 1) v (vs_stability (finalSettings opts))"
    by (simp add: finalSettings_def clamp_both split: option.splits)
  show "case style opts of
      None \<Rightarrow> vs_style (finalSettings opts) = STYLE
    | Some v \<Rightarrow> v \<noteq> NaN \<longrightarrow> isClamped (Fin 0) PosInf v (vs_style (finalSettings opts))"
    by (simp add: finalSettings_def clamp_low split: option.splits)
  show "case speed opts of
      None \<Rightarrow> vs_speed (finalSettings opts) = SPEED
    | Some v \<Rightarrow> v \<noteq> NaN \<longrightarrow> isClamped (Fin (1 / 2)) (Fin 2) v (vs_speed (finalSettings opts))"
    by (simp add: finalSettings_def clamp_both split: option.splits)
qed

theorem overrides_clamped_witness:
  "ELEVEN_API_KEY cfgOn \<and>
   (\<exists>rest. snd (generateVoice cfgOn worldOk ''Hola'' outOfRange) =
      TtsRequest ''Hola'' (finalSettings outOfRange) # rest) \<and>
   vs_stability (finalSettings outOfRange) = Fin 1 \<and>
   vs_style (finalSettings outOfRange) = STYLE \<and>
   vs_speed (finalSettings outOfRange) = Fin (1 / 2)"
  using overrides_clamped [of _ cfgOn worldOk "''Hola''" outOfRange]
  by (simp add: cfgOn_def outOfRange_def noOptions_def isClamped_def)

section \<open>Properties of the conversation store\<close>

lemma add_bounded:
  "historyBounded s u \<Longrightarrow> historyBounded (addMessageToConversation cfg u r c s) u"
  by (auto simp: historyBounded_def addMessageToConversation_def getConversation_def Let_def
        splice_def maxMessages_def maxHistoryPairs_def split: option.splits)

lemma appendAll_bounded:
  "historyBounded s u \<Longrightarrow> historyBounded (appendAll cfg u entries s) u"
  unfolding appendAll_def
  by (induction entries arbitrary: s) (auto simp: add_bounded)

lemma add_evicts:
  "openai cfg \<Longrightarrow> conversations s u = Some h \<Longrightarrow> length h = 21 \<Longrightarrow>
   conversations (addMessageToConversation cfg u r c s) u =
     Some (hd h # drop 2 h @ [\<lparr>role = r, content = c\<rparr>])"
  by (cases h)
     (auto simp: addMessageToConversation_def getConversation_def Let_def
        splice_def maxMessages_def maxHistoryPairs_def)

text \<open>
  C3. The cap is 21 entries, one system entry and twice 10. A history that has at most
  21 entries and the system entry at index 0 keeps both properties through every
  sequence of appends, and so does the history of a user who has none yet, which the
  first append seeds with the system entry. When an append finds 21 entries, the entry
  at index 1, the oldest after the system entry, is the one removed: the system entry
  stays first, the others move up in order and the new entry is last.
\<close>

theorem history_bounded:
  "maxMessages = 21 \<and>
   (historyBounded s u \<longrightarrow> historyBounded (appendAll cfg u entries s) u) \<and>
   (conversations s u = None \<longrightarrow> historyBounded (appendAll cfg u entries s) u) \<and>
   (openai cfg \<and> conversations s u = Some h \<and> length h = 21 \<longrightarrow>
      conversations (addMessageToConversation cfg u r c s) u =
        Some (hd h # drop 2 h @ [\<lparr>role = r, content = c\<rparr>]))"
proof (intro conjI impI)
  show "maxMessages = 21"
    by (simp add: maxMessages_def maxHistoryPairs_def)
  show "historyBounded (appendAll cfg u entries s) u" if "historyBounded s u"
    using that by (rule appendAll_bounded)
  show "historyBounded (appendAll cfg u entries s) u" if "conversations s u = None"
    using that by (intro appendAll_bounded) (simp add: historyBounded_def)
  show "conversations (addMessageToConversation cfg u r c s) u =
        Some (hd h # drop 2 h @ [\<lparr>role = r, content = c\<rparr>])"
    if "openai cfg \<and> conversations s u = Some h \<and> length h = 21"
    using that by (simp add: add_evicts)
qed

theorem history_bounded_witness:
  "historyBounded fullState 7 \<and>
   historyBounded (appendAll cfgOn 7 [(''user'', ''Uno''), (''assistant'', ''Dos'')] fullState) 7 \<and>
   conversations idle 7 = None \<and>
   historyBounded (appendAll cfgOn 7 (replicate 30 (''user'', ''Hola'')) idle) 7 \<and>
   openai cfgOn \<and> conversations fullState 7 = Some fullHistory \<and> length fullHistory = 21 \<and>
   conversations (addMessageToConversation cfgOn 7 ''user'' ''Adios'' fullState) 7 =
     Some (systemEntry # replicate 19 \<lparr>role = ''user'', content = ''Hola''\<rparr> @
           [\<lparr>role = ''user'', content = ''Adios''\<rparr>])"
proof -
  have i: "conversations idle 7 = None"
    by (simp add: idle_def initializeState_def)
  have f: "conversations fullState 7 = Some fullHistory" "length fullHistory = 21"
    by (simp_all add: fullState_def fullHistory_def)
  have b: "historyBounded fullState 7"
    by (simp add: historyBounded_def f fullHistory_def)
  have d: "drop 2 fullHistory = replicate 19 \<lparr>role = ''user'', content = ''Hola''\<rparr>"
    by (simp add: fullHistory_def eval_nat_numeral)
  have o: "openai cfgOn"
    by (simp add: cfgOn_def)
  show ?thesis
    using history_bounded [of fullState 7 cfgOn "[(''user'', ''Uno''), (''assistant'', ''Dos'')]"
        fullHistory "''user''" "''Adios''"]
      history_bounded [of idle 7 cfgOn "replicate 30 (''user'', ''Hola'')"]
    by (simp add: i f b d o) (simp add: fullHistory_def)
qed

text \<open>
  C9. A second \<^verbatim>\<open>/reset\<close> right after a first leaves the state the first one left, and
  a \<^verbatim>\<open>/reset\<close> for a user with no history leaves the state as it is. After a reset the
  user has no history (with the OpenAI client configured, or when the user had none; without
  the client no history is ever created), and the next \<^verbatim>\<open>getConversation\<close> returns and
  stores a history with only the system entry.
\<close>

theorem reset_idempotent:
  "fst (handleResetConversation cfg w2 c (fst (handleResetConversation cfg w1 c s))) =
     fst (handleResetConversation cfg w1 c s) \<and>
   (conversations s (from_id c) = None \<longrightarrow> fst (handleResetConversation cfg w1 c s) = s) \<and>
   (openai cfg \<or> conversations s (from_id c) = None \<longrightarrow>
      conversations (fst (handleResetConversation cfg w1 c s)) (from_id c) = None \<and>
      fst (getConversation (from_id c) (fst (handleResetConversation cfg w1 c s))) = [systemEntry] \<and>
      conversations (snd (getConversation (from_id c) (fst (handleResetConversation cfg w1 c s))))
        (from_id c) = Some [systemEntry])"
  by (auto simp: handleResetConversation_def getConversation_def Let_def fun_upd_idem)

theorem reset_idempotent_witness:
  "openai cfgOn \<and> conversations fullState 7 = Some fullHistory \<and>
   conversations (fst (handleResetConversation cfgOn worldOk (ctxOf ''/reset'') fullState)) 7 = None \<and>
   fst (handleResetConversation cfgOn worldOk (ctxOf ''/reset'')
          (fst (handleResetConversation cfgOn worldOk (ctxOf ''/reset'') fullState))) =
     fst (handleResetConversation cfgOn worldOk (ctxOf ''/reset'') fullState) \<and>
   conversations idle 7 = None \<and>
   fst (handleResetConversation cfgOn worldOk (ctxOf ''/reset'') idle) = idle \<and>
   fst (getConversation 7 (fst (handleResetConversation cfgOn worldOk (ctxOf ''/reset'') fullState))) =
     [systemEntry]"
  using reset_idempotent [of cfgOn worldOk "ctxOf ''/reset''" worldOk fullState]
    reset_idempotent [of cfgOn worldOk "ctxOf ''/reset''" worldOk idle]
  by (simp add: cfgOn_def ctxOf_def fullState_def idle_def initializeState_def)

section \<open>Properties of the operation lock\<close>

lemma add_locks [simp]:
  "pendingOperations (addMessageToConversation cfg u r c s) = pendingOperations s"
  by (auto simp: addMessageToConversation_def getConversation_def Let_def split: option.splits)

lemma add_intents [simp]:
  "pendingVoiceTransformations (addMessageToConversation cfg u r c s) = pendingVoiceTransformations s"
  by (auto simp: addMessageToConversation_def getConversation_def Let_def split: option.splits)

lemma get_locks [simp]:
  "pendingOperations (snd (getConversation u s)) = pendingOperations s"
  by (auto simp: getConversation_def split: option.splits)

lemma get_intents [simp]:
  "pendingVoiceTransformations (snd (getConversation u s)) = pendingVoiceTransformations s"
  by (auto simp: getConversation_def split: option.splits)

lemma gptTryCatch_locks:
  "pendingOperations (fst (gptTryCatch cfg w u m s)) = pendingOperations s"
proof -
  obtain conv s2 where g: "getConversation u (addMessageToConversation cfg u ''user'' m s) = (conv, s2)"
    by (cases "getConversation u (addMessageToConversation cfg u ''user'' m s)")
  have s2: "pendingOperations s2 = pendingOperations s"
    using get_locks [of u "addMessageToConversation cfg u ''user'' m s"] by (simp add: g)
  show ?thesis
    by (cases "generateGPTResponse cfg w conv")
       (auto simp: gptTryCatch_def Let_def g s2 split: sum.splits)
qed

lemma gptTryCatch_intents:
  "pendingVoiceTransformations (fst (gptTryCatch cfg w u m s)) = pendingVoiceTransformations s"
proof -
  obtain conv s2 where g: "getConversation u (addMessageToConversation cfg u ''user'' m s) = (conv, s2)"
    by (cases "getConversation u (addMessageToConversation cfg u ''user'' m s)")
  have s2: "pendingVoiceTransformations s2 = pendingVoiceTransformations s"
    using get_intents [of u "addMessageToConversation cfg u ''user'' m s"] by (simp add: g)
  show ?thesis
    by (cases "generateGPTResponse cfg w conv")
       (auto simp: gptTryCatch_def Let_def g s2 split: sum.splits)
qed

lemma set_clear_lock:
  "pendingOperations s u = None \<Longrightarrow>
   pendingOperations (clearPendingOperation u (setPendingOperation u k s)) = pendingOperations s"
  by (auto simp: clearPendingOperation_def setPendingOperation_def)

lemma clear_after_locked:
  "pendingOperations s' = (pendingOperations s)(u \<mapsto> k) \<Longrightarrow> pendingOperations s u = None \<Longrightarrow>
   pendingOperations (clearPendingOperation u s') = pendingOperations s"
  by (auto simp: clearPendingOperation_def)

lemma processGPTMessage_locks:
  "pendingOperations (fst (processGPTMessage cfg w c m s)) = pendingOperations s"
proof -
  let ?u = "from_id c"
  let ?s1 = "setPendingOperation ?u ''gpt_generating'' s"
  obtain s2 t where g: "gptTryCatch cfg w ?u m ?s1 = (s2, t)"
    by (cases "gptTryCatch cfg w ?u m ?s1")
  have "pendingOperations s2 = pendingOperations ?s1"
    using gptTryCatch_locks [of cfg w ?u m ?s1] by (simp add: g)
  then have s2: "pendingOperations s2 = (pendingOperations s)(?u \<mapsto> ''gpt_generating'')"
    by (simp add: setPendingOperation_def)
  show ?thesis
    by (auto simp: processGPTMessage_def Let_def g hasPendingOperation_def
          clear_after_locked [OF s2])
qed

lemma t2v_locks:
  "pendingOperations (fst (handleTextToVoiceCommand cfg w c s)) = pendingOperations s"
  by (auto simp: handleTextToVoiceCommand_def Let_def hasPendingOperation_def set_clear_lock
        split: option.splits)

lemma clear_intent_locks [simp]:
  "pendingOperations (clearPendingVoiceTransformation u s) = pendingOperations s"
  by (simp add: clearPendingVoiceTransformation_def)

lemma v2v_locks:
  "pendingOperations (fst (processVoiceTransformation cfg w c l s)) = pendingOperations s"
  using set_clear_lock [of "clearPendingVoiceTransformation (from_id c) s" "from_id c"]
  by (auto simp: processVoiceTransformation_def Let_def hasPendingOperation_def)

text \<open>
  C1. The lock of a user is one entry of a map, so it holds at most one operation kind.
  Each of the three pipelines leaves the map of locks exactly as it found it, for every
  outcome of every external call: a pipeline that finds the lock of its user held does
  not touch it, and a pipeline that takes the lock releases it on every path, success or
  failure, before it returns. The \<^verbatim>\<open>try\<close> and \<^verbatim>\<open>catch\<close> blocks of the text pipeline leave
  the locks alone (those of the other two pipelines do not touch the state at all), so
  the lock is held until the \<^verbatim>\<open>finally\<close> block releases it. The same holds for the
  handlers around the pipelines and for \<^verbatim>\<open>/v2v\<close> and \<^verbatim>\<open>/reset\<close>: no handler returns with
  a lock it took.
\<close>

theorem lock_paired:
  "pendingOperations (fst (processGPTMessage cfg w c m s)) = pendingOperations s \<and>
   pendingOperations (fst (handleTextToVoiceCommand cfg w c s)) = pendingOperations s \<and>
   pendingOperations (fst (processVoiceTransformation cfg w c l s)) = pendingOperations s \<and>
   pendingOperations (fst (gptTryCatch cfg w u m s)) = pendingOperations s \<and>
   pendingOperations (fst (handleMessage cfg w c s)) = pendingOperations s \<and>
   pendingOperations (fst (handleTextCommand cfg w c s)) = pendingOperations s \<and>
   pendingOperations (fst (handleAudioUpdate k cfg w c s)) = pendingOperations s \<and>
   pendingOperations (fst (handleVoiceToVoiceCommand cfg w c s)) = pendingOperations s \<and>
   pendingOperations (fst (handleResetConversation cfg w c s)) = pendingOperations s"
  by (cases k)
     (simp_all add: processGPTMessage_locks t2v_locks v2v_locks gptTryCatch_locks
        handleMessage_def handleTextCommand_def handleAudioUpdate_def handleVoiceMessage_def
        handleAudioMessage_def handleVoiceToVoiceCommand_def handleResetConversation_def
        setPendingVoiceTransformation_def Let_def split: option.splits)

section \<open>Rejection while the lock is held\<close>

lemma clear_intent_eq:
  "clearPendingVoiceTransformation u s =
     s\<lparr>pendingVoiceTransformations := (pendingVoiceTransformations s)(u := None)\<rparr>"
  by (simp add: clearPendingVoiceTransformation_def fun_upd_idem)

lemma pvt_busy:
  "hasPendingOperation s (from_id c) \<Longrightarrow>
   processVoiceTransformation cfg w c l s =
     (s\<lparr>pendingVoiceTransformations := (pendingVoiceTransformations s)(from_id c := None)\<rparr>,
      [Reply StillProcessingAudio])"
  by (simp add: processVoiceTransformation_def Let_def clear_intent_eq hasPendingOperation_def)

lemma busyArmed_facts:
  "pendingOperations busyArmed 7 = Some ''t2v_converting''"
  "pendingVoiceTransformations busyArmed 7 = Some 100"
  "conversations busyArmed 7 = None"
  by (simp_all add: busyArmed_def armed_def idle_def initializeState_def
      setPendingOperation_def setPendingVoiceTransformation_def)

text \<open>
  C2, as the code has it. Let the lock of user U be held. A text-generation request of U
  (\<open>processGPTMessage\<close>, reached from a plain message when no voice intent is pending or
  from \<^verbatim>\<open>/t\<close> with a text, the OpenAI client being configured) and a \<^verbatim>\<open>/t2v\<close> of U whose
  arguments parse to a text that is not empty are answered with a still-processing notice
  and leave the whole state as it is. Audio of U that enters \<open>processVoiceTransformation\<close>
  is answered with a still-processing notice too and leaves the histories, the locks and
  the intents of other users as they are, but the pending voice intent of U is cleared:
  the pipeline consumes the intent before it looks at the lock.
\<close>

theorem busy_rejection:
  "hasPendingOperation s (from_id c) \<longrightarrow>
     (openai cfg \<longrightarrow> processGPTMessage cfg w c m s = (s, [Reply StillProcessing])) \<and>
     (openai cfg \<and> message_text c \<noteq> [] \<and> trim (message_text c) \<noteq> [] \<and>
      take 1 (message_text c) \<noteq> ''/'' \<and> \<not> truthy (getPendingVoiceTransformation s (from_id c)) \<longrightarrow>
        handleMessage cfg w c s = (s, [Reply StillProcessing])) \<and>
     (openai cfg \<and> matchTextCommand (message_text c) = Some g \<and> trim g \<noteq> [] \<longrightarrow>
        handleTextCommand cfg w c s = (s, [Reply StillProcessing])) \<and>
     (parsingError (parseT2V (message_text c)) = None \<and>
      trim (join_space (textParts (parseT2V (message_text c)))) \<noteq> [] \<longrightarrow>
        handleTextToVoiceCommand cfg w c s = (s, [Reply StillProcessingT2V])) \<and>
     processVoiceTransformation cfg w c l s =
       (s\<lparr>pendingVoiceTransformations := (pendingVoiceTransformations s)(from_id c := None)\<rparr>,
        [Reply StillProcessingAudio]) \<and>
     (truthy (getPendingVoiceTransformation s (from_id c)) \<longrightarrow>
        handleAudioUpdate k cfg w c s =
          (s\<lparr>pendingVoiceTransformations := (pendingVoiceTransformations s)(from_id c := None)\<rparr>,
           [Reply StillProcessingAudio]))"
  by (cases k)
     (simp_all add: processGPTMessage_def handleMessage_def handleTextCommand_def
        handleTextToVoiceCommand_def handleAudioUpdate_def handleVoiceMessage_def
        handleAudioMessage_def pvt_busy Let_def)

theorem busy_rejection_witness:
  "hasPendingOperation busyArmed 7 \<and> openai cfgOn \<and>
   processGPTMessage cfgOn worldOk (ctxOf ''Hola'') ''Hola'' busyArmed = (busyArmed, [Reply StillProcessing]) \<and>
   matchTextCommand ''/t Hola'' = Some ''Hola'' \<and>
   handleTextCommand cfgOn worldOk (ctxOf ''/t Hola'') busyArmed = (busyArmed, [Reply StillProcessing]) \<and>
   parsingError (parseT2V t2vGood) = None \<and>
   handleTextToVoiceCommand cfgOn worldOk (ctxOf t2vGood) busyArmed = (busyArmed, [Reply StillProcessingT2V]) \<and>
   truthy (getPendingVoiceTransformation busyArmed 7) \<and>
   handleAudioUpdate AudioUpdate cfgOn worldOk (ctxOf []) busyArmed =
     (busyArmed\<lparr>pendingVoiceTransformations := (pendingVoiceTransformations busyArmed)(7 := None)\<rparr>,
      [Reply StillProcessingAudio])"
proof -
  have m: "matchTextCommand ''/t Hola'' = Some ''Hola''" "trim ''Hola'' = ''Hola''"
    by code_simp+
  have q: "trim (quoted ''Hola'') = quoted ''Hola''"
    by code_simp
  have h: "hasPendingOperation busyArmed 7" "truthy (getPendingVoiceTransformation busyArmed 7)"
    by (simp_all add: busyArmed_facts hasPendingOperation_def truthy_def getPendingVoiceTransformation_def)
  have o: "openai cfgOn"
    by (simp add: cfgOn_def)
  have u: "from_id (ctxOf t) = 7" "message_text (ctxOf t) = t" for t
    by (simp_all add: ctxOf_def)
  have a: "processGPTMessage cfgOn worldOk (ctxOf ''Hola'') ''Hola'' busyArmed =
      (busyArmed, [Reply StillProcessing])"
    using busy_rejection [where s = busyArmed and c = "ctxOf ''Hola''" and cfg = cfgOn
        and w = worldOk and m = "''Hola''"] h o
    by (simp add: u)
  have b: "handleTextCommand cfgOn worldOk (ctxOf ''/t Hola'') busyArmed =
      (busyArmed, [Reply StillProcessing])"
    using busy_rejection [where s = busyArmed and c = "ctxOf ''/t Hola''" and cfg = cfgOn
        and w = worldOk and g = "''Hola''"] h o m
    by (simp add: u)
  have c: "handleTextToVoiceCommand cfgOn worldOk (ctxOf t2vGood) busyArmed =
      (busyArmed, [Reply StillProcessingT2V])"
    using busy_rejection [where s = busyArmed and c = "ctxOf t2vGood" and cfg = cfgOn
        and w = worldOk] h q
    by (simp add: u parseT2V_good quoted_def)
  have d: "handleAudioUpdate AudioUpdate cfgOn worldOk (ctxOf []) busyArmed =
     (busyArmed\<lparr>pendingVoiceTransformations := (pendingVoiceTransformations busyArmed)(7 := None)\<rparr>,
      [Reply StillProcessingAudio])"
    using busy_rejection [where s = busyArmed and c = "ctxOf []" and cfg = cfgOn
        and w = worldOk and k = AudioUpdate] h
    by (simp add: u)
  show ?thesis
    by (simp add: h o m a b c d parseT2V_good)
qed

text \<open>
  Without the exception for audio the statement fails: with the lock of user 7 held by a running
  \<^verbatim>\<open>/t2v\<close> and the intent of user 7 armed, a voice message is rejected with the
  still-processing notice and the intent, set before, is gone after.
\<close>

theorem busy_rejection_counterexample:
  "hasPendingOperation busyArmed 7 \<and>
   snd (handleAudioUpdate VoiceUpdate cfgOn worldOk (ctxOf []) busyArmed) = [Reply StillProcessingAudio] \<and>
   isStillProcessing StillProcessingAudio \<and>
   pendingVoiceTransformations busyArmed 7 = Some 100 \<and>
   pendingVoiceTransformations (fst (handleAudioUpdate VoiceUpdate cfgOn worldOk (ctxOf []) busyArmed)) 7 = None"
  by (simp add: busyArmed_facts hasPendingOperation_def handleAudioUpdate_def handleVoiceMessage_def
      truthy_def getPendingVoiceTransformation_def ctxOf_def pvt_busy isStillProcessing_def)

section \<open>The voice intent\<close>

lemma starts_steps [simp]:
  "filter isTransformStart (map (stepEvent StsRequest) steps) = []"
proof (induction steps)
  case Nil
  show ?case by simp
next
  case (Cons st steps)
  then show ?case by (cases st) (simp_all add: isTransformStart_def)
qed

lemma starts_transformVoice [simp]:
  "filter isTransformStart (snd (transformVoice cfg w a)) = []"
  by (cases "retry (sts_attempt w) MAX_RETRIES RETRY_DELAY")
     (auto simp: transformVoice_def Let_def isTransformStart_def split: option.splits sum.splits)

lemma starts_reportError [simp]:
  "filter isTransformStart (reportError w (TransformError e)) = []"
  by (simp add: reportError_def isTransformStart_def)

lemma starts_cleanup [simp]:
  "filter isTransformStart (v2vCleanup w i out) = []"
  by (simp add: v2vCleanup_def Let_def isTransformStart_def)

lemma starts_v2vTry:
  "filter isTransformStart (snd (v2vTry cfg w l)) = [Reply (ReceivedAudio l)]"
proof -
  obtain r t where tv: "transformVoice cfg w V2VInput = (r, t)"
    by (cases "transformVoice cfg w V2VInput")
  have t: "filter isTransformStart t = []"
    using starts_transformVoice [of cfg w V2VInput] by (simp add: tv)
  show ?thesis
    by (simp add: v2vTry_def Let_def tv t isTransformStart_def
          split: option.splits sum.splits)
qed

lemma starts_v2vRun:
  "transformStarts (v2vRun cfg w l) = 1"
proof -
  obtain thrown i out t where tr: "v2vTry cfg w l = ((thrown, i, out), t)"
    by (cases "v2vTry cfg w l") auto
  have t: "filter isTransformStart t = [Reply (ReceivedAudio l)]"
    using starts_v2vTry [of cfg w l] by (simp add: tr)
  show ?thesis
    by (simp add: transformStarts_def v2vRun_def tr t split: option.splits)
qed

lemma pvt_free:
  "\<not> hasPendingOperation s (from_id c) \<Longrightarrow>
   processVoiceTransformation cfg w c l s =
     (s\<lparr>pendingVoiceTransformations := (pendingVoiceTransformations s)(from_id c := None)\<rparr>,
      v2vRun cfg w l)"
  by (simp add: processVoiceTransformation_def Let_def clear_intent_eq hasPendingOperation_def
        setPendingOperation_def clearPendingOperation_def fun_upd_idem)

lemma audio_armed_free:
  "truthy (getPendingVoiceTransformation s (from_id c)) \<Longrightarrow> \<not> hasPendingOperation s (from_id c) \<Longrightarrow>
   handleAudioUpdate k cfg w c s =
     (s\<lparr>pendingVoiceTransformations := (pendingVoiceTransformations s)(from_id c := None)\<rparr>,
      v2vRun cfg w (case k of VoiceUpdate \<Rightarrow> ''mensaje de voz'' | AudioUpdate \<Rightarrow> ''archivo de audio''))"
  by (cases k)
     (simp_all add: handleAudioUpdate_def handleVoiceMessage_def handleAudioMessage_def pvt_free)

lemma audio_not_armed:
  "\<not> truthy (getPendingVoiceTransformation s (from_id c)) \<Longrightarrow>
   handleAudioUpdate k cfg w c s = (s, [Reply (unsolicited k)])"
  by (cases k)
     (simp_all add: handleAudioUpdate_def handleVoiceMessage_def handleAudioMessage_def
        unsolicited_def)

lemma arm_armed:
  "\<not> hasPendingOperation s (from_id c) \<Longrightarrow> reply_error w = None \<Longrightarrow> message_id c \<noteq> 0 \<Longrightarrow>
   truthy (getPendingVoiceTransformation (fst (handleVoiceToVoiceCommand cfg w c s)) (from_id c)) \<and>
   pendingOperations (fst (handleVoiceToVoiceCommand cfg w c s)) = pendingOperations s"
  by (simp add: handleVoiceToVoiceCommand_def Let_def truthy_def getPendingVoiceTransformation_def
        setPendingVoiceTransformation_def)

lemma two_audios:
  assumes h: "truthy (getPendingVoiceTransformation s (from_id c1))"
    "\<not> hasPendingOperation s (from_id c1)" "from_id c2 = from_id c1"
  shows "transformStarts (snd (handleAudioUpdate k1 cfg w1 c1 s)) = 1"
    and "pendingVoiceTransformations (fst (handleAudioUpdate k1 cfg w1 c1 s)) (from_id c1) = None"
    and "handleAudioUpdate k2 cfg w2 c2 (fst (handleAudioUpdate k1 cfg w1 c1 s)) =
       (fst (handleAudioUpdate k1 cfg w1 c1 s), [Reply (unsolicited k2)])"
    and "handleAudioUpdate k2 cfg w2 c2
         (setPendingOperation (from_id c1) ''v2v_transforming''
            (clearPendingVoiceTransformation (from_id c1) s)) =
       (setPendingOperation (from_id c1) ''v2v_transforming''
          (clearPendingVoiceTransformation (from_id c1) s), [Reply (unsolicited k2)])"
proof -
  let ?s1 = "s\<lparr>pendingVoiceTransformations := (pendingVoiceTransformations s)(from_id c1 := None)\<rparr>"
  let ?l = "case k1 of VoiceUpdate \<Rightarrow> ''mensaje de voz'' | AudioUpdate \<Rightarrow> ''archivo de audio''"
  have first: "handleAudioUpdate k1 cfg w1 c1 s = (?s1, v2vRun cfg w1 ?l)"
    using h by (simp add: audio_armed_free)
  have n1: "\<not> truthy (getPendingVoiceTransformation ?s1 (from_id c2))"
    using h by (simp add: truthy_def getPendingVoiceTransformation_def)
  let ?sm = "setPendingOperation (from_id c1) ''v2v_transforming''
            (clearPendingVoiceTransformation (from_id c1) s)"
  have nm: "\<not> truthy (getPendingVoiceTransformation ?sm (from_id c2))"
    using h by (simp add: truthy_def getPendingVoiceTransformation_def setPendingOperation_def
        clear_intent_eq)
  show "transformStarts (snd (handleAudioUpdate k1 cfg w1 c1 s)) = 1"
    by (simp add: first starts_v2vRun)
  show "pendingVoiceTransformations (fst (handleAudioUpdate k1 cfg w1 c1 s)) (from_id c1) = None"
    by (simp add: first)
  show "handleAudioUpdate k2 cfg w2 c2 (fst (handleAudioUpdate k1 cfg w1 c1 s)) =
       (fst (handleAudioUpdate k1 cfg w1 c1 s), [Reply (unsolicited k2)])"
    using n1 by (simp add: first audio_not_armed)
  show "handleAudioUpdate k2 cfg w2 c2 ?sm = (?sm, [Reply (unsolicited k2)])"
    using nm by (rule audio_not_armed)
qed

lemma starts_unsolicited:
  "transformStarts (t @ [Reply (unsolicited k)]) = transformStarts t"
  by (cases k) (simp_all add: transformStarts_def unsolicited_def isTransformStart_def)

text \<open>
  C4. User U has no operation running and sends \<^verbatim>\<open>/v2v\<close> (in a message whose
  identifier is not 0, as all of Telegram's are), and the confirmation is delivered: the
  intent is armed. U then sends two updates with audio, each a voice
  message or an audio file, and each is handled to its end. Whatever the outcomes of
  the external calls, the first one starts the transform pipeline exactly once and
  leaves no intent for U, also when the pipeline fails at its first step; the second
  one gets the reply for audio nobody asked for, changes no state and starts nothing,
  so the two together start the pipeline exactly once. The same holds when the second
  update arrives while the first run is suspended: in the state that run is in from its
  first suspension on (intent cleared, lock taken) the second update gets the same reply.
\<close>

theorem intent_consumed_once:
  "\<not> hasPendingOperation s (from_id c0) \<and> reply_error w0 = None \<and> message_id c0 \<noteq> 0 \<and>
   from_id c1 = from_id c0 \<and> from_id c2 = from_id c0 \<longrightarrow>
     (let armedState = fst (handleVoiceToVoiceCommand cfg w0 c0 s);
          first = handleAudioUpdate k1 cfg w1 c1 armedState;
          second = handleAudioUpdate k2 cfg w2 c2 (fst first);
          inFlight = setPendingOperation (from_id c0) ''v2v_transforming''
                       (clearPendingVoiceTransformation (from_id c0) armedState)
      in truthy (getPendingVoiceTransformation armedState (from_id c0)) \<and>
         transformStarts (snd first) = 1 \<and>
         pendingVoiceTransformations (fst first) (from_id c0) = None \<and>
         second = (fst first, [Reply (unsolicited k2)]) \<and>
         transformStarts (snd first @ snd second) = 1 \<and>
         handleAudioUpdate k2 cfg w2 c2 inFlight = (inFlight, [Reply (unsolicited k2)]))"
  (is "?H \<longrightarrow> ?C")
proof
  assume h: ?H
  let ?a = "fst (handleVoiceToVoiceCommand cfg w0 c0 s)"
  have armed: "truthy (getPendingVoiceTransformation ?a (from_id c1))"
    and free: "\<not> hasPendingOperation ?a (from_id c1)"
    using h arm_armed [of s c0 w0 cfg] by (simp_all add: hasPendingOperation_def)
  have same: "from_id c2 = from_id c1"
    using h by simp
  note t = two_audios [OF armed free same]
  show ?C
    using h armed t by (simp add: Let_def starts_unsolicited)
qed

theorem intent_consumed_once_witness:
  "\<not> hasPendingOperation idle 7 \<and> reply_error worldOk = None \<and> message_id (ctxOf ''/v2v'') \<noteq> 0 \<and>
   truthy (getPendingVoiceTransformation (fst (handleVoiceToVoiceCommand cfgOn worldOk (ctxOf ''/v2v'') idle)) 7) \<and>
   transformStarts (snd (handleAudioUpdate VoiceUpdate cfgOn worldOk (ctxOf [])
      (fst (handleVoiceToVoiceCommand cfgOn worldOk (ctxOf ''/v2v'') idle)))) = 1 \<and>
   snd (handleAudioUpdate AudioUpdate cfgOn worldOk (ctxOf [])
      (fst (handleAudioUpdate VoiceUpdate cfgOn worldOk (ctxOf [])
         (fst (handleVoiceToVoiceCommand cfgOn worldOk (ctxOf ''/v2v'') idle))))) = [Reply UnsolicitedAudio]"
proof -
  have i: "\<not> hasPendingOperation idle 7"
    by (simp add: hasPendingOperation_def idle_def initializeState_def)
  have w: "reply_error worldOk = None"
    by (simp add: worldOk_def)
  have u: "from_id (ctxOf t) = 7" "message_id (ctxOf t) = 101" for t
    by (simp_all add: ctxOf_def)
  show ?thesis
    using intent_consumed_once [where s = idle and ?c0.0 = "ctxOf ''/v2v''" and ?w0.0 = worldOk
        and ?c1.0 = "ctxOf []" and ?c2.0 = "ctxOf []" and cfg = cfgOn and ?w1.0 = worldOk
        and ?w2.0 = worldOk and ?k1.0 = VoiceUpdate and ?k2.0 = AudioUpdate] i w
    by (simp add: u Let_def unsolicited_def)
qed

lemma command_intents:
  "pendingVoiceTransformations (fst (processGPTMessage cfg w c m s)) = pendingVoiceTransformations s"
proof -
  let ?u = "from_id c"
  let ?s1 = "setPendingOperation ?u ''gpt_generating'' s"
  obtain s2 t where g: "gptTryCatch cfg w ?u m ?s1 = (s2, t)"
    by (cases "gptTryCatch cfg w ?u m ?s1")
  have "pendingVoiceTransformations s2 = pendingVoiceTransformations ?s1"
    using gptTryCatch_intents [of cfg w ?u m ?s1] by (simp add: g)
  then have s2: "pendingVoiceTransformations s2 = pendingVoiceTransformations s"
    by (simp add: setPendingOperation_def)
  show ?thesis
    by (simp add: processGPTMessage_def Let_def g s2 clearPendingOperation_def)
qed

lemma armed_facts:
  "pendingOperations armed 7 = None"
  "pendingVoiceTransformations armed 7 = Some 100"
  "conversations armed 7 = None"
  by (simp_all add: armed_def idle_def initializeState_def setPendingVoiceTransformation_def)

text \<open>
  C5, as the code has it. With the intent of user U armed: a text of U that is not empty
  and does not start with \<^verbatim>\<open>/\<close> cancels the intent, which is cleared with one notice to
  the user, no pipeline and no other change of state; audio of U consumes the intent. So
  after one such message U has no intent. A command of U does not cancel it: \<^verbatim>\<open>/t\<close>,
  \<^verbatim>\<open>/t2v\<close> and \<^verbatim>\<open>/reset\<close> leave every intent as it is, and \<^verbatim>\<open>/v2v\<close> changes no state and
  answers that audio is already expected (or, with the lock held, that a request is
  still processing).
\<close>

theorem intent_after_one_message:
  "truthy (getPendingVoiceTransformation s (from_id c)) \<longrightarrow>
     (message_text c \<noteq> [] \<and> trim (message_text c) \<noteq> [] \<and> take 1 (message_text c) \<noteq> ''/'' \<longrightarrow>
        handleMessage cfg w c s =
          (s\<lparr>pendingVoiceTransformations := (pendingVoiceTransformations s)(from_id c := None)\<rparr>,
           [Reply V2VCancelled])) \<and>
     pendingVoiceTransformations (fst (handleAudioUpdate k cfg w c s)) (from_id c) = None \<and>
     pendingVoiceTransformations (fst (handleTextCommand cfg w c s)) = pendingVoiceTransformations s \<and>
     pendingVoiceTransformations (fst (handleTextToVoiceCommand cfg w c s)) = pendingVoiceTransformations s \<and>
     pendingVoiceTransformations (fst (handleResetConversation cfg w c s)) = pendingVoiceTransformations s \<and>
     handleVoiceToVoiceCommand cfg w c s =
       (s, [Reply (if hasPendingOperation s (from_id c) then StillProcessing else AlreadyWaitingAudio)])"
proof -
  have "pendingVoiceTransformations (fst (handleAudioUpdate k cfg w c s)) (from_id c) = None"
    if "truthy (getPendingVoiceTransformation s (from_id c))"
    using that
    by (cases k; cases "hasPendingOperation s (from_id c)")
       (simp_all add: handleAudioUpdate_def handleVoiceMessage_def handleAudioMessage_def
          pvt_busy pvt_free)
  then show ?thesis
    by (simp add: handleMessage_def handleTextCommand_def handleTextToVoiceCommand_def
          handleResetConversation_def handleVoiceToVoiceCommand_def command_intents
          clear_intent_eq setPendingOperation_def clearPendingOperation_def Let_def
          split: option.splits)
qed

theorem intent_after_one_message_witness:
  "truthy (getPendingVoiceTransformation armed 7) \<and>
   handleMessage cfgOn worldOk (ctxOf ''Hola'') armed =
     (armed\<lparr>pendingVoiceTransformations := (pendingVoiceTransformations armed)(7 := None)\<rparr>,
      [Reply V2VCancelled]) \<and>
   pendingVoiceTransformations (fst (handleAudioUpdate VoiceUpdate cfgOn worldOk (ctxOf []) armed)) 7 = None \<and>
   handleVoiceToVoiceCommand cfgOn worldOk (ctxOf ''/v2v'') armed = (armed, [Reply AlreadyWaitingAudio])"
proof -
  have a: "truthy (getPendingVoiceTransformation armed 7)"
    by (simp add: truthy_def getPendingVoiceTransformation_def armed_facts)
  have t: "trim ''Hola'' = ''Hola''"
    by code_simp
  have u: "from_id (ctxOf t) = 7" "message_text (ctxOf t) = t" for t
    by (simp_all add: ctxOf_def)
  have f: "\<not> hasPendingOperation armed 7"
    by (simp add: hasPendingOperation_def armed_facts)
  have m: "handleMessage cfgOn worldOk (ctxOf ''Hola'') armed =
     (armed\<lparr>pendingVoiceTransformations := (pendingVoiceTransformations armed)(7 := None)\<rparr>,
      [Reply V2VCancelled])"
    using intent_after_one_message [where s = armed and c = "ctxOf ''Hola''" and cfg = cfgOn
        and w = worldOk] a t
    by (simp add: u)
  have v: "pendingVoiceTransformations (fst (handleAudioUpdate VoiceUpdate cfgOn worldOk (ctxOf []) armed)) 7 = None"
    "handleVoiceToVoiceCommand cfgOn worldOk (ctxOf ''/v2v'') armed = (armed, [Reply AlreadyWaitingAudio])"
    using intent_after_one_message [where s = armed and c = "ctxOf []" and cfg = cfgOn
        and w = worldOk and k = VoiceUpdate]
      intent_after_one_message [where s = armed and c = "ctxOf ''/v2v''" and cfg = cfgOn
        and w = worldOk] a f
    by (simp_all add: u)
  show ?thesis
    by (simp add: a m v)
qed

text \<open>
  Without the exception for commands the statement fails: with the intent of user 7 armed, the message
  \<^verbatim>\<open>/t Hola\<close> runs the text-generation pipeline, backend call included, and the intent
  is still armed after it.
\<close>

theorem intent_after_one_message_counterexample:
  "truthy (getPendingVoiceTransformation armed 7) \<and>
   pendingVoiceTransformations (fst (handleTextCommand cfgOn worldOk (ctxOf ''/t Hola'') armed)) 7 = Some 100 \<and>
   snd (handleTextCommand cfgOn worldOk (ctxOf ''/t Hola'') armed) =
     [Reply Thinking, ChatAction ''typing'',
      GptRequest [systemEntry, \<lparr>role = ''user'', content = ''Hola''\<rparr>],
      EditMessage (GptAnswer ''Claro.'')]"
  by code_simp

section \<open>Properties of the retry wrapper\<close>

lemma retry_from_done:
  "\<not> i < n \<Longrightarrow> retry_from fn n d i le = (Inl le, [])"
  by (subst retry_from.simps) simp

lemma retry_from_ok:
  "i < n \<Longrightarrow> fn i = Inr v \<Longrightarrow> retry_from fn n d i le = (Inr v, [Attempt i])"
  by (subst retry_from.simps) simp

lemma retry_from_fail:
  "i < n \<Longrightarrow> fn i = Inl e \<Longrightarrow>
   retry_from fn n d i le =
     (fst (retry_from fn n d (Suc i) (Some e)),
      Attempt i # (if i < n - 1 then [Wait (d * 2 ^ i)] else []) @
        snd (retry_from fn n d (Suc i) (Some e)))"
  by (subst retry_from.simps) (simp add: Let_def split: prod.splits)

text \<open>
  C7. With at most 3 attempts: an operation that fails on its first two calls and succeeds
  on the third makes the wrapper return that result after exactly two waits, of the base
  delay and of twice the base delay, and three calls; an operation that fails on all three
  calls makes the wrapper throw the error of the third call, again after exactly those two
  waits (there is no wait after the last attempt).
\<close>

theorem retry_third_attempt:
  "(fn 0 = Inl e0 \<and> fn 1 = Inl e1 \<and> fn 2 = Inr v \<longrightarrow>
      fst (retry fn 3 delay) = Inr v \<and>
      delays (snd (retry fn 3 delay)) = [delay, 2 * delay] \<and>
      attempts (snd (retry fn 3 delay)) = 3) \<and>
   (fn 0 = Inl e0 \<and> fn 1 = Inl e1 \<and> fn 2 = Inl e2 \<longrightarrow>
      fst (retry fn 3 delay) = Inl (Some e2) \<and>
      delays (snd (retry fn 3 delay)) = [delay, 2 * delay] \<and>
      attempts (snd (retry fn 3 delay)) = 3)"
proof (intro conjI impI)
  assume h: "fn 0 = Inl e0 \<and> fn 1 = Inl e1 \<and> fn 2 = Inr v"
  then have f: "fn 0 = Inl e0" "fn (Suc 0) = Inl e1" "fn (Suc (Suc 0)) = Inr v"
    by (simp_all add: numeral_2_eq_2)
  have r: "retry fn 3 delay =
      (Inr v, [Attempt 0, Wait delay, Attempt (Suc 0), Wait (delay * 2), Attempt (Suc (Suc 0))])"
    by (simp add: retry_def retry_from_fail retry_from_ok f)
  show "fst (retry fn 3 delay) = Inr v"
    and "delays (snd (retry fn 3 delay)) = [delay, 2 * delay]"
    and "attempts (snd (retry fn 3 delay)) = 3"
    by (simp_all add: r)
next
  assume h: "fn 0 = Inl e0 \<and> fn 1 = Inl e1 \<and> fn 2 = Inl e2"
  then have f: "fn 0 = Inl e0" "fn (Suc 0) = Inl e1" "fn (Suc (Suc 0)) = Inl e2"
    by (simp_all add: numeral_2_eq_2)
  have r: "retry fn 3 delay =
      (Inl (Some e2),
       [Attempt 0, Wait delay, Attempt (Suc 0), Wait (delay * 2), Attempt (Suc (Suc 0))])"
    by (simp add: retry_def retry_from_fail retry_from_done f eval_nat_numeral)
  show "fst (retry fn 3 delay) = Inl (Some e2)"
    and "delays (snd (retry fn 3 delay)) = [delay, 2 * delay]"
    and "attempts (snd (retry fn 3 delay)) = 3"
    by (simp_all add: r)
qed

theorem retry_third_attempt_witness:
  "fst (retry flaky MAX_RETRIES RETRY_DELAY) = Inr 42 \<and>
   delays (snd (retry flaky MAX_RETRIES RETRY_DELAY)) = [5000, 10000] \<and>
   fst (retry broken MAX_RETRIES RETRY_DELAY) = Inl (Some ''third'') \<and>
   delays (snd (retry broken MAX_RETRIES RETRY_DELAY)) = [5000, 10000]"
  using retry_third_attempt [where fn = flaky and ?e0.0 = "''timeout''" and ?e1.0 = "''rate limit''"
      and v = 42 and delay = 5000]
    retry_third_attempt [where fn = broken and ?e0.0 = "''first''" and ?e1.0 = "''second''"
      and ?e2.0 = "''third''" and delay = 5000]
  by (simp add: flaky_def broken_def MAX_RETRIES_def RETRY_DELAY_def)

end
